theory Spec2Isabelle
  imports Main "HOL-Library.Product_Lexorder" "HOL-Library.List_Lexorder" "HOL-Library.AList"
    "HOL-Library.Word"
begin

section \<open>Tile readers of landez (reader.py)\<close>

text \<open>
  A shallow embedding of \<^verbatim>\<open>landez/reader.py\<close>: the MBTiles archive reader, the remote
  tile downloader and the WMS requester. Python integers are \<open>int\<close>, byte strings and
  text are \<open>string\<close>, exceptions are values of the type \<open>error\<close>, and every method that
  can raise returns \<open>error + 'a\<close>. Methods that write the output file or use the network
  take the world (file system, count of network calls) and return it updated.
\<close>

subsection \<open>Exceptions\<close>

text \<open>
  The three exception classes of the module carry their message when one is given
  (\<open>None\<close> for a bare \<^verbatim>\<open>raise DownloadError\<close>); the others are the built-in exceptions
  that the modelled statements can raise.
\<close>

datatype error =
    ExtractionError "string option"
  | InvalidFormatError
  | DownloadError "string option"
  | NotImplementedError
  | TypeError
  | ValueError
  | KeyError string
  | IndexError
  | ZeroDivisionError
  | NameError
  | OverflowError

subsection \<open>Text of Python values\<close>

definition digit_char :: "nat \<Rightarrow> char" where
  "digit_char d = char_of (48 + d)"

fun str_nat :: "nat \<Rightarrow> string" where
  "str_nat n = (if n < 10 then [digit_char n] else str_nat (n div 10) @ [digit_char (n mod 10)])"

declare str_nat.simps [simp del]

definition str_int :: "int \<Rightarrow> string" where
  "str_int i = (if i < 0 then CHR ''-'' # str_nat (nat (- i)) else str_nat (nat i))"

text \<open>\<^verbatim>\<open>sep.join(items)\<close>\<close>

fun join :: "string \<Rightarrow> string list \<Rightarrow> string" where
  "join sep [] = []"
| "join sep [x] = x"
| "join sep (x # y # ys) = x @ sep @ join sep (y # ys)"

text \<open>The text of a tuple, from the texts of its items: \<^verbatim>\<open>(1, 2, 3)\<close>, \<^verbatim>\<open>(1,)\<close>.\<close>

definition repr_tuple :: "string list \<Rightarrow> string" where
  "repr_tuple items =
     ''('' @ join '', '' items @ (if length items = 1 then '','' else '''') @ '')''"

text \<open>
  \<^verbatim>\<open>repr\<close> of a byte string: in double quotes when the string has a single quote and no
  double quote in it, in single quotes otherwise; the quote in use and the backslash are
  written after a backslash; tab, newline and carriage return are a backslash and the
  letter t, n or r; any other byte that is not printable ASCII is a backslash, the letter
  x and two hexadecimal digits.
\<close>

definition hex_digit :: "nat \<Rightarrow> char" where
  "hex_digit d = (if d < 10 then char_of (48 + d) else char_of (87 + d))"

definition repr_char :: "char \<Rightarrow> char \<Rightarrow> string" where
  "repr_char quote c =
     (if c = quote \<or> c = CHR 0x5C then [CHR 0x5C, c]
      else if c = CHR 0x09 then [CHR 0x5C, CHR ''t'']
      else if c = CHR 0x0A then [CHR 0x5C, CHR ''n'']
      else if c = CHR 0x0D then [CHR 0x5C, CHR ''r'']
      else if (of_char c :: nat) < 32 \<or> 127 \<le> (of_char c :: nat) then
        [CHR 0x5C, CHR ''x'', hex_digit (of_char c div 16), hex_digit (of_char c mod 16)]
      else [c])"

definition repr_str :: "string \<Rightarrow> string" where
  "repr_str s =
     (let quote = (if CHR 0x27 \<in> set s \<and> CHR 0x22 \<notin> set s then CHR 0x22 else CHR 0x27)
      in quote # concat (map (repr_char quote) s) @ [quote])"

subsection \<open>The \<^verbatim>\<open>%\<close> operator on a format string\<close>

text \<open>
  \<^verbatim>\<open>fmt % args\<close> for the conversions the module uses (\<^verbatim>\<open>%s\<close>, and \<^verbatim>\<open>%%\<close>): the
  arguments are the items of the right operand when it is a tuple, the operand itself
  otherwise, given here by their text. Too few arguments raise TypeError ("not enough
  arguments for format string"), arguments left over raise TypeError ("not all arguments
  converted during string formatting"), any other conversion character is ValueError.
\<close>

fun py_percent :: "string \<Rightarrow> string list \<Rightarrow> error + string" where
  "py_percent [] [] = Inr []"
| "py_percent [] (a # as) = Inl TypeError"
| "py_percent [c] as =
     (if c = CHR ''%'' then Inl ValueError
      else (case py_percent [] as of Inl e \<Rightarrow> Inl e | Inr r \<Rightarrow> Inr (c # r)))"
| "py_percent (c # d # fs) as =
     (if c = CHR ''%'' then
        (if d = CHR ''s'' then
           (case as of
              [] \<Rightarrow> Inl TypeError
            | a # as' \<Rightarrow> (case py_percent fs as' of Inl e \<Rightarrow> Inl e | Inr r \<Rightarrow> Inr (a @ r)))
         else if d = CHR ''%'' then
           (case py_percent fs as of Inl e \<Rightarrow> Inl e | Inr r \<Rightarrow> Inr (CHR ''%'' # r))
         else Inl ValueError)
      else (case py_percent (d # fs) as of Inl e \<Rightarrow> Inl e | Inr r \<Rightarrow> Inr (c # r)))"

subsection \<open>Tile rows: requested and stored convention\<close>

text \<open>
  \<^verbatim>\<open>y_mercator = (2**int(z) - 1) - int(y)\<close>, written in \<^verbatim>\<open>MBTilesReader.tile\<close> and in
  \<^verbatim>\<open>MBTilesReader.grid\<close>. The zoom is a natural number: a tile coordinate has a
  non-negative zoom, and a negative exponent leaves the integers.
\<close>

definition y_mercator :: "nat \<Rightarrow> int \<Rightarrow> int" where
  "y_mercator z y = (2 ^ z - 1) - y"

subsection \<open>The archive\<close>

text \<open>
  The tables of an MBTiles file that the reader queries. A table is \<open>None\<close> when a query
  on it fails in SQLite (the file is not a database, or the table is missing): \<^verbatim>\<open>_query\<close>
  turns that into InvalidFormatError. The rows are in the order SQLite returns them.
  The model starts from an archive whose connection can be opened. A stored integer is a
  signed 64-bit integer, as SQLite stores it; \<open>sint\<close> reads it.
\<close>

record coord =
  zoom_level :: "64 word"
  tile_column :: "64 word"
  tile_row :: "64 word"

record tiles_row = coord +
  tile_data :: string

record grids_row = coord +
  grid :: string

record grid_data_row = coord +
  key_name :: string
  key_json :: string

record archive =
  tiles :: "tiles_row list option"
  grids :: "grids_row list option"
  grid_data :: "grid_data_row list option"

text \<open>The file system that \<^verbatim>\<open>open(output, 'wb')\<close> writes, and the network calls made.\<close>

record world =
  fs :: "string \<Rightarrow> string option"
  calls :: nat

text \<open>\<^verbatim>\<open>Reader.__init__\<close>: a missing or zero tile size is the default one.\<close>

definition Reader_tilesize :: "int \<Rightarrow> int option \<Rightarrow> int" where
  "Reader_tilesize DEFAULT_TILE_SIZE tilesize =
     (case tilesize of
        None \<Rightarrow> DEFAULT_TILE_SIZE
      | Some t \<Rightarrow> if t = 0 then DEFAULT_TILE_SIZE else t)"

text \<open>\<^verbatim>\<open>Reader.tile\<close>\<close>

definition Reader_tile :: "int \<Rightarrow> int \<Rightarrow> int \<Rightarrow> string \<Rightarrow> world \<Rightarrow> (error + unit) \<times> world" where
  "Reader_tile z x y output w = (Inl NotImplementedError, w)"

text \<open>The attributes of a reader, and of each class derived from it.\<close>

record reader =
  tilesize :: int
  basename :: string

record mbtiles_reader = reader +
  filename :: string

text \<open>The integers that SQLite can bind to a parameter of a statement.\<close>

definition sqlite_int :: "int \<Rightarrow> bool" where
  "sqlite_int i \<longleftrightarrow> - (2 ^ 63) \<le> i \<and> i < 2 ^ 63"

text \<open>
  The text of the argument tuple of \<^verbatim>\<open>_query\<close>, which holds the tuple of the parameters,
  as the debug line prints it (without the suffix of a long integer).
\<close>

definition args_text :: "int list \<Rightarrow> string" where
  "args_text params = repr_tuple [repr_tuple (map str_int params)]"

text \<open>
  \<^verbatim>\<open>_query(sql, *args)\<close>: the debug line is formatted, then the statement runs; \<open>sql\<close>
  is the statement with its white space joined and \<open>params\<close> are the integers bound to
  its parameters. SQLite first compiles the statement, which fails on a file or a table
  it cannot read: the \<^verbatim>\<open>except\<close> clause turns that into InvalidFormatError. Then it binds
  the parameters: an integer outside 64 bits raises OverflowError, which the clause does
  not catch.
\<close>

definition query :: "string \<Rightarrow> int list \<Rightarrow> 'r list option \<Rightarrow> error + 'r list" where
  "query sql params table =
     (case py_percent (''Execute query '' @ [CHR 0x27] @ ''%s'' @ [CHR 0x27] @ '' %s'')
             [sql, args_text params] of
        Inl e \<Rightarrow> Inl e
      | Inr _ \<Rightarrow>
         (case table of
            None \<Rightarrow> Inl InvalidFormatError
          | Some rows \<Rightarrow> if list_all sqlite_int params then Inr rows else Inl OverflowError))"

text \<open>\<^verbatim>\<open>WHERE zoom_level=? AND tile_column=? AND tile_row=?\<close>\<close>

definition at_coord :: "int \<Rightarrow> int \<Rightarrow> int \<Rightarrow> 'a coord_scheme \<Rightarrow> bool" where
  "at_coord z x y r \<longleftrightarrow>
     sint (zoom_level r) = z \<and> sint (tile_column r) = x \<and> sint (tile_row r) = y"

text \<open>\<^verbatim>\<open>MBTilesReader.tile\<close>\<close>

definition MBTilesReader_tile ::
  "mbtiles_reader \<Rightarrow> archive \<Rightarrow> nat \<Rightarrow> int \<Rightarrow> int \<Rightarrow> string \<Rightarrow> world \<Rightarrow> (error + unit) \<times> world" where
  "MBTilesReader_tile rd db z x y output w =
     (case py_percent ''Extract tile %s'' [str_int (int z), str_int x, str_int y] of
        Inl e \<Rightarrow> (Inl e, w)
      | Inr _ \<Rightarrow>
         (let ym = y_mercator z y in
          case query ''SELECT tile_data FROM tiles WHERE zoom_level=? AND tile_column=? AND tile_row=?;''
                 [int z, x, ym] (tiles db) of
            Inl e \<Rightarrow> (Inl e, w)
          | Inr rows \<Rightarrow>
             (case filter (at_coord (int z) x ym) rows of
                [] \<Rightarrow>
                  (case py_percent ''Could not extract tile %s from %s''
                          [repr_tuple [str_int (int z), str_int x, str_int y], filename rd] of
                     Inl e \<Rightarrow> (Inl e, w)
                   | Inr m \<Rightarrow> (Inl (ExtractionError (Some m)), w))
              | t # _ \<Rightarrow> (Inr (), w\<lparr>fs := (fs w)(output \<mapsto> tile_data t)\<rparr>))))"

subsection \<open>Interactivity grids\<close>

text \<open>
  The values \<^verbatim>\<open>json.loads\<close> returns; a dictionary is an association list with one
  entry per key, and \<^verbatim>\<open>d[k] = v\<close> on it is \<open>AList.update\<close>. The type of numbers is
  left open.
\<close>

datatype 'n json =
    JNull
  | JBool bool
  | JNum 'n
  | JStr string
  | JArr "'n json list"
  | JObj "(string \<times> 'n json) list"

text \<open>
  The library functions that \<^verbatim>\<open>grid()\<close> calls, taken as they are: \<^verbatim>\<open>zlib.decompress\<close>
  and \<^verbatim>\<open>json.loads\<close> can raise, \<^verbatim>\<open>json.dumps\<close> gives the text of a document.
\<close>

record 'n libs =
  zlib_decompress :: "string \<Rightarrow> error + string"
  json_loads :: "string \<Rightarrow> error + 'n json"
  json_dumps :: "'n json \<Rightarrow> string"

text \<open>\<^verbatim>\<open>doc[key] = value\<close>: only a dictionary takes a string key.\<close>

fun set_item :: "'n json \<Rightarrow> string \<Rightarrow> 'n json \<Rightarrow> error + 'n json" where
  "set_item (JObj kvs) k v = Inr (JObj (AList.update k v kvs))"
| "set_item _ k v = Inl TypeError"

text \<open>
  The loop over the \<^verbatim>\<open>grid_data\<close> rows: \<open>data\<close> is the dictionary
  \<^verbatim>\<open>grid_json['data']\<close> so far.
\<close>

fun join_grid_data ::
  "'n libs \<Rightarrow> grid_data_row list \<Rightarrow> (string \<times> 'n json) list \<Rightarrow> error + (string \<times> 'n json) list" where
  "join_grid_data L [] data = Inr data"
| "join_grid_data L (r # rs) data =
     (case json_loads L (key_json r) of
        Inl e \<Rightarrow> Inl e
      | Inr v \<Rightarrow> join_grid_data L rs (AList.update (key_name r) v data))"

text \<open>\<^verbatim>\<open>MBTilesReader.grid\<close>; \<open>callback\<close> is \<open>None\<close> when the argument is left out.\<close>

definition MBTilesReader_grid ::
  "'n libs \<Rightarrow> mbtiles_reader \<Rightarrow> archive \<Rightarrow> nat \<Rightarrow> int \<Rightarrow> int \<Rightarrow> string option \<Rightarrow> error + string" where
  "MBTilesReader_grid L rd db z x y callback =
     (let cb = (case callback of None \<Rightarrow> ''grid'' | Some c \<Rightarrow> if c = [] then ''grid'' else c);
          ym = y_mercator z y
      in
      case query ''SELECT grid FROM grids WHERE zoom_level=? AND tile_column=? AND tile_row=?;''
             [int z, x, ym] (grids db) of
        Inl e \<Rightarrow> Inl e
      | Inr rows \<Rightarrow>
         (case filter (at_coord (int z) x ym) rows of
            [] \<Rightarrow>
              (case py_percent ''Could not extract grid %s from %s''
                      [repr_tuple [str_int (int z), str_int x, str_int y], filename rd] of
                 Inl e \<Rightarrow> Inl e
               | Inr m \<Rightarrow> Inl (ExtractionError (Some m)))
          | t # _ \<Rightarrow>
             (case zlib_decompress L (grid t) of
                Inl e \<Rightarrow> Inl e
              | Inr text \<Rightarrow>
                 (case json_loads L text of
                    Inl e \<Rightarrow> Inl e
                  | Inr grid_json \<Rightarrow>
                     (case query ''SELECT key_name, key_json FROM grid_data WHERE zoom_level=? AND tile_column=? AND tile_row=?;''
                             [int z, x, ym] (grid_data db) of
                        Inl e \<Rightarrow> Inl e
                      | Inr rows' \<Rightarrow>
                         (case set_item grid_json ''data'' (JObj []) of
                            Inl e \<Rightarrow> Inl e
                          | Inr grid_json' \<Rightarrow>
                             (case join_grid_data L (filter (at_coord (int z) x ym) rows') [] of
                                Inl e \<Rightarrow> Inl e
                              | Inr data \<Rightarrow>
                                 (case set_item grid_json' ''data'' (JObj data) of
                                    Inl e \<Rightarrow> Inl e
                                  | Inr doc \<Rightarrow> py_percent ''%s(%s);'' [cb, json_dumps L doc]))))))))"

subsection \<open>Coverage\<close>

text \<open>
  The projection of \<^verbatim>\<open>proj.py\<close>, which is not part of this file, taken as it is: the
  first two arguments of each operation are those of the constructor
  \<^verbatim>\<open>GoogleProjection(tilesize, levels)\<close>. A tuple of coordinates is a list, and \<open>'c\<close> is
  the type of a coordinate.
\<close>

record 'c projection =
  unproject_pixels :: "int \<Rightarrow> int list \<Rightarrow> int \<times> int \<Rightarrow> int \<Rightarrow> 'c list"
  tile_bbox :: "int \<Rightarrow> int list \<Rightarrow> int \<times> int \<times> int \<Rightarrow> 'c list"
  project :: "int \<Rightarrow> int list \<Rightarrow> 'c list \<Rightarrow> 'c list"
  str_coord :: "'c \<Rightarrow> string"
  NAME :: string

text \<open>
  The loop \<^verbatim>\<open>while t and t[0] - previous[0] <= 1\<close>: the second argument is the row
  \<open>t\<close> followed by the rows not fetched yet, empty when \<open>t\<close> is \<^verbatim>\<open>None\<close>; the result is
  \<open>previous\<close> when the loop ends.
\<close>

fun adjacent_scan :: "int \<times> int \<Rightarrow> (int \<times> int) list \<Rightarrow> int \<times> int" where
  "adjacent_scan previous [] = previous"
| "adjacent_scan previous (t # rest) =
     (if fst t - fst previous \<le> 1 then adjacent_scan t rest else previous)"

text \<open>\<^verbatim>\<open>SELECT tile_column, tile_row FROM tiles WHERE zoom_level=? ORDER BY tile_column, tile_row\<close>\<close>

definition coverage_rows :: "int \<Rightarrow> tiles_row list \<Rightarrow> (int \<times> int) list" where
  "coverage_rows zoom rows =
     sort (map (\<lambda>r. (sint (tile_column r), sint (tile_row r)))
             (filter (\<lambda>r. sint (zoom_level r) = zoom) rows))"

text \<open>
  \<^verbatim>\<open>MBTilesReader.find_coverage\<close>: unpacking \<^verbatim>\<open>xmin, ymin = t\<close> raises TypeError when
  \<open>t\<close> is \<^verbatim>\<open>None\<close>.
\<close>

definition MBTilesReader_find_coverage ::
  "'c projection \<Rightarrow> mbtiles_reader \<Rightarrow> archive \<Rightarrow> int \<Rightarrow> error + 'c list" where
  "MBTilesReader_find_coverage P rd db zoom =
     (case query ''SELECT tile_column, tile_row FROM tiles WHERE zoom_level=? ORDER BY tile_column, tile_row;''
             [zoom] (tiles db) of
        Inl e \<Rightarrow> Inl e
      | Inr rows \<Rightarrow>
         (case coverage_rows zoom rows of
            [] \<Rightarrow> Inl TypeError
          | t # rest \<Rightarrow>
             (let xmin = fst t; ymin = snd t;
                  previous = adjacent_scan t (t # rest);
                  xmax = fst previous; ymax = snd previous;
                  S = tilesize rd;
                  bottomleft = (xmin * S, (ymax + 1) * S);
                  topright = ((xmax + 1) * S, ymin * S)
              in Inr (unproject_pixels P S [zoom] bottomleft zoom
                      @ unproject_pixels P S [zoom] topright zoom))))"

subsection \<open>\<^verbatim>\<open>str.format\<close> with keyword arguments\<close>

text \<open>
  The values that a URL template or a WMS parameter can hold; \<open>VSelf\<close> is the reader
  object itself, which \<^verbatim>\<open>locals()\<close> contains.
\<close>

datatype pyval = VInt int | VStr string | VBool bool | VSelf

text \<open>
  What the library decides in \<^verbatim>\<open>template.format(**kwargs)\<close>: the text of the object
  (its address is in it), and the rendering of a replacement field that has an
  attribute, an index, a conversion or a format specification after its name.
\<close>

record formatter =
  object_repr :: string
  format_field :: "pyval \<Rightarrow> string \<Rightarrow> error + string"
  ssize_t_max :: int

definition str_val :: "formatter \<Rightarrow> pyval \<Rightarrow> string" where
  "str_val F v =
     (case v of
        VInt i \<Rightarrow> str_int i
      | VStr s \<Rightarrow> s
      | VBool b \<Rightarrow> (if b then ''True'' else ''False'')
      | VSelf \<Rightarrow> object_repr F)"

definition is_digit :: "char \<Rightarrow> bool" where
  "is_digit c \<longleftrightarrow> (48::nat) \<le> of_char c \<and> (of_char c :: nat) \<le> 57"

definition name_end :: "char \<Rightarrow> bool" where
  "name_end c \<longleftrightarrow> c = CHR ''.'' \<or> c = CHR ''['' \<or> c = CHR ''!'' \<or> c = CHR '':''"

text \<open>The number that a text of decimal digits writes.\<close>

definition digits_value :: "string \<Rightarrow> nat" where
  "digits_value ds = foldl (\<lambda>a c. 10 * a + (of_char c - 48)) 0 ds"

text \<open>
  The text of a field from its first \<^verbatim>\<open>!\<close> or \<^verbatim>\<open>:\<close> on is checked when the field is
  read: after \<^verbatim>\<open>!\<close> there must be one character, the conversion, and after it nothing
  or a colon.
\<close>

definition bad_conversion :: "string \<Rightarrow> bool" where
  "bad_conversion spec =
     (case spec of
        [] \<Rightarrow> False
      | c # cs \<Rightarrow>
          c = CHR ''!'' \<and>
          (case cs of
             [] \<Rightarrow> True
           | conversion # cs' \<Rightarrow> (case cs' of [] \<Rightarrow> False | c' # _ \<Rightarrow> c' \<noteq> CHR '':'')))"

text \<open>
  A replacement field, given the text between its braces (Python 2.7). A conversion that
  is not well formed is ValueError. The name runs up to the first of \<^verbatim>\<open>. [ ! :\<close>. An
  empty name is numbered by the formatter and a name of digits is an index: an index
  above the platform's \<^verbatim>\<open>PY_SSIZE_T_MAX\<close> is ValueError, and any other is IndexError,
  since there is no positional argument. A name that is not a keyword argument is
  KeyError.
\<close>

definition render_field :: "formatter \<Rightarrow> (string \<times> pyval) list \<Rightarrow> string \<Rightarrow> error + string" where
  "render_field F kwargs field =
     (let spec = dropWhile (\<lambda>c. c \<noteq> CHR ''!'' \<and> c \<noteq> CHR '':'') field;
          arg_name = takeWhile (\<lambda>c. \<not> name_end c) field;
          rest = dropWhile (\<lambda>c. \<not> name_end c) field
      in if bad_conversion spec then Inl ValueError
         else if arg_name = [] then Inl IndexError
         else if list_all is_digit arg_name then
           (if ssize_t_max F < int (digits_value arg_name) then Inl ValueError
            else Inl IndexError)
         else (case map_of kwargs arg_name of
                 None \<Rightarrow> Inl (KeyError arg_name)
               | Some v \<Rightarrow> if rest = [] then Inr (str_val F v) else format_field F v rest))"

text \<open>
  The scan of the template, from left to right: in the text, or inside a field with
  the number of braces opened inside it and the field read so far, reversed.
  \<^verbatim>\<open>{{\<close> and \<^verbatim>\<open>}}\<close> are the two braces; a brace alone, or a field that does not
  end, is ValueError. A field is rendered when it ends, before the scan goes on.
\<close>

datatype scan_mode = Text | InField nat string

fun format_scan :: "formatter \<Rightarrow> (string \<times> pyval) list \<Rightarrow> scan_mode \<Rightarrow> string \<Rightarrow> error + string" where
  "format_scan F kw Text [] = Inr []"
| "format_scan F kw (InField d acc) [] = Inl ValueError"
| "format_scan F kw Text [c] =
     (if c = CHR ''{'' \<or> c = CHR ''}'' then Inl ValueError else Inr [c])"
| "format_scan F kw Text (c # c' # cs) =
     (if c = CHR ''{'' then
        (if c' = CHR ''{'' then
           (case format_scan F kw Text cs of Inl e \<Rightarrow> Inl e | Inr r \<Rightarrow> Inr (CHR ''{'' # r))
         else format_scan F kw (InField 0 []) (c' # cs))
      else if c = CHR ''}'' then
        (if c' = CHR ''}'' then
           (case format_scan F kw Text cs of Inl e \<Rightarrow> Inl e | Inr r \<Rightarrow> Inr (CHR ''}'' # r))
         else Inl ValueError)
      else (case format_scan F kw Text (c' # cs) of Inl e \<Rightarrow> Inl e | Inr r \<Rightarrow> Inr (c # r)))"
| "format_scan F kw (InField d acc) (c # cs) =
     (if c = CHR ''{'' then format_scan F kw (InField (Suc d) (c # acc)) cs
      else if c = CHR ''}'' then
        (case d of
           0 \<Rightarrow>
             (case render_field F kw (rev acc) of
                Inl e \<Rightarrow> Inl e
              | Inr v \<Rightarrow> (case format_scan F kw Text cs of Inl e \<Rightarrow> Inl e | Inr r \<Rightarrow> Inr (v @ r)))
         | Suc d' \<Rightarrow> format_scan F kw (InField d' (c # acc)) cs)
      else format_scan F kw (InField d (c # acc)) cs)"

definition py_format :: "formatter \<Rightarrow> string \<Rightarrow> (string \<times> pyval) list \<Rightarrow> error + string" where
  "py_format F template kwargs = format_scan F kwargs Text template"

subsection \<open>The remote downloader\<close>

record tile_downloader = reader +
  tiles_url :: string
  tiles_subdomains :: "string list"

text \<open>
  What one call of \<^verbatim>\<open>urllib.URLopener().retrieve(url, output)\<close> does: the body arrives
  and is the content of the output file; or the URL cannot be opened (IOError, before the
  output file is opened); or the transfer stops after the output file has been opened
  for writing and some of the body written (IOError, also when the body is shorter than
  announced). The network is the outcome of each call, by its number and its URL.
\<close>

datatype transfer = Transferred string | OpenFailed string | Interrupted string string

definition retrieve ::
  "(nat \<Rightarrow> string \<Rightarrow> transfer) \<Rightarrow> string \<Rightarrow> string \<Rightarrow> world \<Rightarrow> (string + unit) \<times> world" where
  "retrieve net url output w =
     (case net (calls w) url of
        Transferred body \<Rightarrow> (Inr (), w\<lparr>fs := (fs w)(output \<mapsto> body), calls := Suc (calls w)\<rparr>)
      | OpenFailed msg \<Rightarrow> (Inl msg, w\<lparr>calls := Suc (calls w)\<rparr>)
      | Interrupted part msg \<Rightarrow>
          (Inl msg, w\<lparr>fs := (fs w)(output \<mapsto> part), calls := Suc (calls w)\<rparr>))"

text \<open>
  The loop \<^verbatim>\<open>while r > 0\<close> of \<^verbatim>\<open>TileDownloader.tile\<close> and the
  \<^verbatim>\<open>raise DownloadError\<close> after it; \<open>Inl msg\<close> of \<open>retrieve\<close> is the IOError caught.
\<close>

function download_loop ::
  "(nat \<Rightarrow> string \<Rightarrow> transfer) \<Rightarrow> string \<Rightarrow> string \<Rightarrow> int \<Rightarrow> world \<Rightarrow> (error + unit) \<times> world" where
  "download_loop net url output r w =
     (if r > 0 then
        (case retrieve net url output w of
           (Inr u, w') \<Rightarrow> (Inr (), w')
         | (Inl msg, w') \<Rightarrow>
             (case py_percent ''Download error, retry (%s left). (%s)'' [str_int r, msg] of
                Inl e \<Rightarrow> (Inl e, w')
              | Inr _ \<Rightarrow> download_loop net url output (r - 1) w'))
      else (Inl (DownloadError None), w))"
  by pat_completeness auto
termination
  by (relation "measure (\<lambda>(net, url, output, r, w). nat r)") auto

declare download_loop.simps [simp del]

text \<open>
  \<^verbatim>\<open>TileDownloader.tile\<close>, with the retry budget \<^verbatim>\<open>DOWNLOAD_RETRIES\<close> of the package.
  The keyword arguments of \<^verbatim>\<open>format\<close> are \<^verbatim>\<open>locals()\<close>: the arguments of the method
  and the two variables assigned before the call.
\<close>

definition tile_locals :: "int \<Rightarrow> int \<Rightarrow> int \<Rightarrow> string \<Rightarrow> int \<Rightarrow> string \<Rightarrow> (string \<times> pyval) list" where
  "tile_locals z x y output size' s =
     [(''self'', VSelf), (''z'', VInt z), (''x'', VInt x), (''y'', VInt y),
      (''output'', VStr output), (''size'', VInt size'), (''s'', VStr s)]"

definition TileDownloader_tile ::
  "formatter \<Rightarrow> int \<Rightarrow> (nat \<Rightarrow> string \<Rightarrow> transfer) \<Rightarrow> tile_downloader \<Rightarrow>
     int \<Rightarrow> int \<Rightarrow> int \<Rightarrow> string \<Rightarrow> world \<Rightarrow> (error + unit) \<times> world" where
  "TileDownloader_tile F DOWNLOAD_RETRIES net rd z x y output w =
     (case py_percent ''Download tile %s'' [repr_tuple [str_int z, str_int x, str_int y]] of
        Inl e \<Rightarrow> (Inl e, w)
      | Inr _ \<Rightarrow>
         (let size = tilesize rd in
          if tiles_subdomains rd = [] then (Inl ZeroDivisionError, w)
          else
            (let s = tiles_subdomains rd ! nat ((x + y) mod int (length (tiles_subdomains rd))) in
             case py_format F (tiles_url rd) (tile_locals z x y output size s) of
               Inl (KeyError k) \<Rightarrow>
                 (case py_percent ''Unknown keyword %s in URL'' [repr_str k] of
                    Inl e \<Rightarrow> (Inl e, w)
                  | Inr m \<Rightarrow> (Inl (DownloadError (Some m)), w))
             | Inl e \<Rightarrow> (Inl e, w)
             | Inr url \<Rightarrow>
                 (case py_percent ''Retrieve tile at %s'' [url] of
                    Inl e \<Rightarrow> (Inl e, w)
                  | Inr _ \<Rightarrow> download_loop net url output DOWNLOAD_RETRIES w))))"

subsection \<open>The WMS requester\<close>

record wms_reader = reader +
  url :: string
  wmsParams :: "string \<Rightarrow> pyval option"

text \<open>
  \<^verbatim>\<open>WMSReader.__init__\<close>. \<open>parse_version\<close> is the function of \<^verbatim>\<open>pkg_resources\<close>, taken as
  it is: it can raise (on a version that is not a string), and its values are ordered;
  the constructor compares the value of the effective version with the value of
  \<^verbatim>\<open>'1.3'\<close>. \<open>P\<close> gives \<^verbatim>\<open>GoogleProjection.NAME\<close>; \<open>kwargs\<close> are the overrides.
\<close>

definition WMSReader_init ::
  "(pyval \<Rightarrow> error + 'v::linorder) \<Rightarrow> 'c projection \<Rightarrow> int \<Rightarrow> string \<Rightarrow> string list \<Rightarrow>
     int option \<Rightarrow> (string \<Rightarrow> pyval option) \<Rightarrow> error + wms_reader" where
  "WMSReader_init parse_version P DEFAULT_TILE_SIZE url_arg layers tilesize_arg kwargs =
     (let ts = Reader_tilesize DEFAULT_TILE_SIZE tilesize_arg;
          params =
            [''service'' \<mapsto> VStr ''WMS'',
             ''request'' \<mapsto> VStr ''GetMap'',
             ''version'' \<mapsto> VStr ''1.1.1'',
             ''styles'' \<mapsto> VStr [],
             ''format'' \<mapsto> VStr ''image/jpeg'',
             ''transparent'' \<mapsto> VBool False,
             ''layers'' \<mapsto> VStr (join '','' layers),
             ''width'' \<mapsto> VInt ts,
             ''height'' \<mapsto> VInt ts] ++ kwargs
      in case params ''version'' of
           None \<Rightarrow> Inl (KeyError ''version'')
         | Some v \<Rightarrow>
            (case parse_version v of
               Inl e \<Rightarrow> Inl e
             | Inr given \<Rightarrow>
                (case parse_version (VStr ''1.3'') of
                   Inl e \<Rightarrow> Inl e
                 | Inr bound \<Rightarrow>
                    (let projectionKey = (if given \<ge> bound then ''crs'' else ''srs'')
                     in Inr \<lparr>tilesize = ts, basename = join ''-'' layers, url = url_arg,
                             wmsParams = params(projectionKey \<mapsto> VStr (NAME P))\<rparr>))))"

text \<open>
  What \<^verbatim>\<open>urllib.urlopen(url)\<close> gives: IOError, or a response with its content type
  (\<open>None\<close> when the header is missing) and its body (\<open>None\<close> when reading it raises IOError).
\<close>

datatype wms_response = Unreachable | Response "string option" "string option"

definition header_matches :: "string option \<Rightarrow> pyval \<Rightarrow> bool" where
  "header_matches header fmt =
     (case (header, fmt) of (Some h, VStr f) \<Rightarrow> h = f | _ \<Rightarrow> False)"

text \<open>
  The URL that \<^verbatim>\<open>WMSReader.tile\<close> builds before it opens it; \<open>urlencode\<close> is
  \<^verbatim>\<open>urllib.urlencode\<close>.
\<close>

definition WMSReader_url ::
  "'c projection \<Rightarrow> ((string \<Rightarrow> pyval option) \<Rightarrow> string) \<Rightarrow> wms_reader \<Rightarrow> int \<Rightarrow> int \<Rightarrow> int \<Rightarrow>
     error + string" where
  "WMSReader_url P urlencode rd z x y =
     (let S = tilesize rd;
          bbox = tile_bbox P S [z] (z, x, y);
          bbox' = project P S [z] (take 2 bbox) @ project P S [z] (drop 2 bbox);
          bbox_text = join '','' (map (str_coord P) bbox')
      in
      case py_percent ''%s?%s'' [url rd, urlencode (wmsParams rd)] of
        Inl e \<Rightarrow> Inl e
      | Inr url0 \<Rightarrow>
         (case py_percent ''&bbox=%s'' [bbox_text] of
            Inl e \<Rightarrow> Inl e
          | Inr q \<Rightarrow> Inr (url0 @ q)))"

text \<open>
  \<^verbatim>\<open>WMSReader.tile\<close>. The output file is opened for writing, and so emptied, before the
  body is read.
\<close>

definition WMSReader_tile ::
  "'c projection \<Rightarrow> ((string \<Rightarrow> pyval option) \<Rightarrow> string) \<Rightarrow> (nat \<Rightarrow> string \<Rightarrow> wms_response) \<Rightarrow>
     wms_reader \<Rightarrow> int \<Rightarrow> int \<Rightarrow> int \<Rightarrow> string \<Rightarrow> world \<Rightarrow> (error + unit) \<times> world" where
  "WMSReader_tile P urlencode net rd z x y output w =
     (case py_percent ''Request WMS tile %s'' [repr_tuple [str_int z, str_int x, str_int y]] of
        Inl e \<Rightarrow> (Inl e, w)
      | Inr _ \<Rightarrow>
         (case WMSReader_url P urlencode rd z x y of
            Inl e \<Rightarrow> (Inl e, w)
          | Inr url1 \<Rightarrow>
             (case py_percent (''Download '' @ [CHR 0x27] @ ''%s'' @ [CHR 0x27]) [url1] of
                Inl e \<Rightarrow> (Inl e, w)
              | Inr _ \<Rightarrow>
                 (let w' = w\<lparr>calls := Suc (calls w)\<rparr> in
                  case net (calls w) url1 of
                    Unreachable \<Rightarrow> (Inl (ExtractionError None), w')
                  | Response header body \<Rightarrow>
                     (case wmsParams rd ''format'' of
                        None \<Rightarrow> (Inl (KeyError ''format''), w')
                      | Some fmt \<Rightarrow>
                         if \<not> header_matches header fmt then (Inl (ExtractionError None), w')
                         else
                           (case body of
                              None \<Rightarrow>
                                (Inl (ExtractionError None), w'\<lparr>fs := (fs w)(output \<mapsto> [])\<rparr>)
                            | Some content \<Rightarrow>
                                (Inr (), w'\<lparr>fs := (fs w)(output \<mapsto> content)\<rparr>)))))))"

subsection \<open>The renderer\<close>

text \<open>
  \<^verbatim>\<open>MapnikRenderer.tile\<close>: the debug line, then a call through the name \<^verbatim>\<open>proj\<close>, which
  the module does not define.
\<close>

definition MapnikRenderer_tile :: "int \<Rightarrow> int \<Rightarrow> int \<Rightarrow> string \<Rightarrow> world \<Rightarrow> (error + unit) \<times> world" where
  "MapnikRenderer_tile z x y output w =
     (case py_percent ''Render tile %s'' [str_int z, str_int x, str_int y] of
        Inl e \<Rightarrow> (Inl e, w)
      | Inr _ \<Rightarrow> (Inl NameError, w))"

subsection \<open>The coverage scan as the specification words it\<close>

text \<open>
  The run of the specification: it starts at the first pair and goes on while the next
  pair's column differs from the column of the pair before it by at most 1, rows not
  looked at.
\<close>

fun column_run :: "(int \<times> int) list \<Rightarrow> (int \<times> int) list" where
  "column_run [] = []"
| "column_run [p] = [p]"
| "column_run (p # q # ps) =
     (if \<bar>fst q - fst p\<bar> \<le> 1 then p # column_run (q # ps) else [p])"

text \<open>Ascending by column, then by row.\<close>

definition column_then_row :: "int \<times> int \<Rightarrow> int \<times> int \<Rightarrow> bool" where
  "column_then_row p q \<longleftrightarrow> fst p < fst q \<or> (fst p = fst q \<and> snd p \<le> snd q)"

text \<open>
  The box of the specification, from the sorted pairs: the seed is the first pair, the
  end is the last pair of the run, and the two pixel corners are converted and
  concatenated.
\<close>

definition coverage_box :: "'c projection \<Rightarrow> int \<Rightarrow> int \<Rightarrow> (int \<times> int) list \<Rightarrow> 'c list" where
  "coverage_box P S zoom pairs =
     (let (xmin, ymin) = hd pairs; (xmax, ymax) = last (column_run pairs)
      in unproject_pixels P S [zoom] (xmin * S, (ymax + 1) * S) zoom
         @ unproject_pixels P S [zoom] ((xmax + 1) * S, ymin * S) zoom)"

subsection \<open>Failed transfer attempts\<close>

text \<open>A transfer attempt fails when it ends in IOError.\<close>

definition failed :: "transfer \<Rightarrow> bool" where
  "failed t = (case t of Transferred _ \<Rightarrow> False | _ \<Rightarrow> True)"

text \<open>It fails before the output file is opened when the URL cannot be opened.\<close>

definition refused :: "transfer \<Rightarrow> bool" where
  "refused t = (case t of OpenFailed _ \<Rightarrow> True | _ \<Rightarrow> False)"

subsection \<open>Placeholders of a URL template\<close>

text \<open>
  The text between the braces of a placeholder: its braces are nested (\<open>nested d\<close> reads
  a text inside \<open>d\<close> open braces and ends outside all of them), it does not start with
  a brace (two opening braces are the text of one), and its conversion, if it has one,
  is well formed. Its name is the text up to the first of \<^verbatim>\<open>. [ ! :\<close>; the placeholder is
  named when the name is not empty and not a number. \<open>local_names\<close> are the names that
  \<^verbatim>\<open>TileDownloader.tile\<close> has values for.
\<close>

fun nested :: "nat \<Rightarrow> string \<Rightarrow> bool" where
  "nested d [] = (d = 0)"
| "nested d (c # cs) =
     (if c = CHR ''{'' then nested (Suc d) cs
      else if c = CHR ''}'' then (case d of 0 \<Rightarrow> False | Suc d' \<Rightarrow> nested d' cs)
      else nested d cs)"

definition placeholder_name :: "string \<Rightarrow> string" where
  "placeholder_name field = takeWhile (\<lambda>c. \<not> name_end c) field"

definition named_placeholder :: "string \<Rightarrow> bool" where
  "named_placeholder field \<longleftrightarrow>
     nested 0 field \<and> take 1 field \<noteq> ''{''
     \<and> \<not> bad_conversion (dropWhile (\<lambda>c. c \<noteq> CHR ''!'' \<and> c \<noteq> CHR '':'') field)
     \<and> placeholder_name field \<noteq> [] \<and> \<not> list_all is_digit (placeholder_name field)"

definition local_names :: "string list" where
  "local_names = [''self'', ''z'', ''x'', ''y'', ''output'', ''size'', ''s'']"

subsection \<open>Example data\<close>

text \<open>
  A small archive, its reader and the stand-ins for the libraries, on which the
  theorems below are run. The archive has three tiles at zoom 1, one grid at the stored
  coordinate \<open>(1, 0, 1)\<close> with two fragments, and a fragment without a grid at
  \<open>(1, 0, 0)\<close>.
\<close>

definition example_reader :: mbtiles_reader where
  "example_reader = \<lparr>tilesize = 256, basename = ''a.mbtiles'', filename = ''a.mbtiles''\<rparr>"

definition example_archive :: archive where
  "example_archive =
     \<lparr>tiles = Some
        [\<lparr>zoom_level = 1, tile_column = 1, tile_row = 1, tile_data = ''T3''\<rparr>,
         \<lparr>zoom_level = 1, tile_column = 0, tile_row = 0, tile_data = ''T1''\<rparr>,
         \<lparr>zoom_level = 1, tile_column = 1, tile_row = 0, tile_data = ''T2''\<rparr>],
      grids = Some
        [\<lparr>zoom_level = 1, tile_column = 0, tile_row = 1, grid = ''}{''\<rparr>],
      grid_data = Some
        [\<lparr>zoom_level = 1, tile_column = 0, tile_row = 1, key_name = ''a'', key_json = ''1''\<rparr>,
         \<lparr>zoom_level = 1, tile_column = 0, tile_row = 0, key_name = ''c'', key_json = ''3''\<rparr>,
         \<lparr>zoom_level = 1, tile_column = 0, tile_row = 1, key_name = ''b'', key_json = ''2''\<rparr>]\<rparr>"

text \<open>
  The same archive with three fragments at the coordinate of the grid, the first and the
  third under the same feature key.
\<close>

definition duplicate_archive :: archive where
  "duplicate_archive =
     example_archive\<lparr>grid_data := Some
        [\<lparr>zoom_level = 1, tile_column = 0, tile_row = 1, key_name = ''a'', key_json = ''1''\<rparr>,
         \<lparr>zoom_level = 1, tile_column = 0, tile_row = 1, key_name = ''b'', key_json = ''2''\<rparr>,
         \<lparr>zoom_level = 1, tile_column = 0, tile_row = 1, key_name = ''a'', key_json = ''3''\<rparr>]\<rparr>"

text \<open>
  Decompression is reversal, the text \<^verbatim>\<open>{}\<close> parses to an object with one entry and any
  other text to a string, and a document is printed as its keys and its \<^verbatim>\<open>data\<close>.
\<close>

definition example_dumps :: "nat json \<Rightarrow> string" where
  "example_dumps d =
     (case d of
        JObj kvs \<Rightarrow>
          join '','' (map fst kvs) @ '':'' @
          (case map_of kvs ''data'' of
             Some (JObj data) \<Rightarrow>
               join '','' (map (\<lambda>(k, v). k @ ''='' @ (case v of JStr s \<Rightarrow> s | _ \<Rightarrow> ''?'')) data)
           | _ \<Rightarrow> ''?'')
      | _ \<Rightarrow> ''?'')"

definition example_libs :: "nat libs" where
  "example_libs =
     \<lparr>zlib_decompress = (\<lambda>b. Inr (rev b)),
      json_loads = (\<lambda>s. if s = ''{}'' then Inr (JObj [(''keys'', JArr [])]) else Inr (JStr s)),
      json_dumps = example_dumps\<rparr>"

text \<open>A projection that leaves pixels and coordinates as they are.\<close>

definition example_projection :: "int projection" where
  "example_projection =
     \<lparr>unproject_pixels = (\<lambda>S levels px zoom. [fst px, snd px]),
      tile_bbox = (\<lambda>S levels (z, x, y). [x * S, (y + 1) * S, (x + 1) * S, y * S]),
      project = (\<lambda>S levels c. c),
      str_coord = str_int,
      NAME = ''EPSG:3857''\<rparr>"

definition example_world :: world where
  "example_world = \<lparr>fs = Map.empty, calls = 0\<rparr>"

text \<open>A world in which the output file of the WMS examples exists already.\<close>

definition old_world :: world where
  "old_world = \<lparr>fs = [''out.jpg'' \<mapsto> ''OLD''], calls = 0\<rparr>"

text \<open>
  A downloader with the template of the specification's example, a formatter that takes
  no field with a conversion or a format specification, and a network whose first \<open>n\<close>
  calls stop in the middle of the transfer.
\<close>

definition example_formatter :: formatter where
  "example_formatter =
     \<lparr>object_repr = ''<landez.reader.TileDownloader object>'',
      format_field = (\<lambda>v spec. Inl ValueError),
      ssize_t_max = 9223372036854775807\<rparr>"

definition example_downloader :: tile_downloader where
  "example_downloader =
     \<lparr>tilesize = 256, basename = ''tile.test'',
      tiles_url = ''http://{s}.tile.test/{z}/{x}/{y}.png'',
      tiles_subdomains = [''a'', ''b'']\<rparr>"

definition flaky_net :: "nat \<Rightarrow> nat \<Rightarrow> string \<Rightarrow> transfer" where
  "flaky_net n k u = (if k < n then Interrupted ''PN'' ''timed out'' else Transferred ''PNG'')"

text \<open>
  A WMS requester as the constructor leaves it with no override, and four servers: one
  that answers with a JPEG, one that answers with an error page, one whose body cannot
  be read, and one that cannot be reached.
\<close>

definition example_wms :: wms_reader where
  "example_wms =
     \<lparr>tilesize = 256, basename = ''roads'', url = ''http://wms.test/'',
      wmsParams = [''format'' \<mapsto> VStr ''image/jpeg'', ''version'' \<mapsto> VStr ''1.1.1'',
                   ''srs'' \<mapsto> VStr ''EPSG:3857'']\<rparr>"

definition example_urlencode :: "(string \<Rightarrow> pyval option) \<Rightarrow> string" where
  "example_urlencode params = ''format=image%2Fjpeg''"

definition jpeg_server :: "nat \<Rightarrow> string \<Rightarrow> wms_response" where
  "jpeg_server k u = Response (Some ''image/jpeg'') (Some ''JPEG'')"

definition error_server :: "nat \<Rightarrow> string \<Rightarrow> wms_response" where
  "error_server k u = Response (Some ''text/xml'') (Some ''<ServiceException/>'')"

definition broken_server :: "nat \<Rightarrow> string \<Rightarrow> wms_response" where
  "broken_server k u = Response (Some ''image/jpeg'') None"

definition unreachable_server :: "nat \<Rightarrow> string \<Rightarrow> wms_response" where
  "unreachable_server k u = Unreachable"

text \<open>
  A network on which no URL can be opened, and one whose first call stops in the middle
  of the transfer and on which no URL can be opened after that.
\<close>

definition refusing_net :: "nat \<Rightarrow> string \<Rightarrow> transfer" where
  "refusing_net k u = OpenFailed ''connection refused''"

definition stalling_net :: "nat \<Rightarrow> string \<Rightarrow> transfer" where
  "stalling_net k u =
     (if k = 0 then Interrupted ''PN'' ''timed out'' else OpenFailed ''connection refused'')"

text \<open>
  Three more downloaders: one whose template has a placeholder without a value, one where
  that placeholder comes after two doubled braces and has an attribute, and one whose
  template names the argument \<^verbatim>\<open>output\<close> of the method.
\<close>

definition dotted_downloader :: tile_downloader where
  "dotted_downloader = example_downloader\<lparr>tiles_url := ''http://{s}.tile.test/{{x}}/{foo.bar}''\<rparr>"

definition unknown_downloader :: tile_downloader where
  "unknown_downloader = example_downloader\<lparr>tiles_url := ''http://{s}.tile.test/{foo}/{z}.png''\<rparr>"

definition output_downloader :: tile_downloader where
  "output_downloader = example_downloader\<lparr>tiles_url := ''http://tile.test/{z}/{x}/{y}/{output}''\<rparr>"

text \<open>
  A stand-in for \<^verbatim>\<open>parse_version\<close>, which reads the versions made of numbers and dots:
  the value is the list of the numbers without the zeros at its end, and lists are
  compared number by number.
\<close>

definition split_dots :: "string \<Rightarrow> string list" where
  "split_dots s =
     foldr (\<lambda>c parts. if c = CHR ''.'' then [] # parts else (c # hd parts) # tl parts) s [[]]"

definition dotted_version :: "pyval \<Rightarrow> error + nat list" where
  "dotted_version v =
     (case v of
        VStr s \<Rightarrow>
          if list_all (\<lambda>part. part \<noteq> [] \<and> list_all is_digit part) (split_dots s)
          then Inr (rev (dropWhile (\<lambda>n. n = 0) (rev (map digits_value (split_dots s)))))
          else Inl ValueError
      | _ \<Rightarrow> Inl TypeError)"

section \<open>Properties\<close>

subsection \<open>Row conversion\<close>

text \<open>
  C1. Row-conversion involution: at every zoom, converting a row to the other convention
  twice gives the row back, so the conversion of \<^verbatim>\<open>tile()\<close> and \<^verbatim>\<open>grid()\<close> is its own
  inverse. It holds for every integer row, in particular for the rows \<open>0 \<le> y < 2^z\<close>
  of the zoom level.
\<close>

theorem y_mercator_involution: "y_mercator z (y_mercator z y) = y"
  by (simp add: y_mercator_def)

subsection \<open>The debug lines and messages\<close>

lemma py_percent_query [simp]:
  "py_percent (''Execute query '' @ [CHR 0x27] @ ''%s'' @ [CHR 0x27] @ '' %s'') [a, b] =
     Inr (''Execute query '' @ [CHR 0x27] @ a @ [CHR 0x27] @ '' '' @ b)"
  by simp

lemma py_percent_extract_tile [simp]:
  "py_percent ''Extract tile %s'' [a, b, c] = Inl TypeError"
  by simp

lemma py_percent_no_grid [simp]:
  "py_percent ''Could not extract grid %s from %s'' [a, b] =
     Inr (''Could not extract grid '' @ a @ '' from '' @ b)"
  by simp

lemma py_percent_jsonp [simp]:
  "py_percent ''%s(%s);'' [a, b] = Inr (a @ ''('' @ b @ '');'')"
  by simp

lemma query_rows: "list_all sqlite_int params \<Longrightarrow> query sql params (Some rows) = Inr rows"
  unfolding query_def by (simp only: py_percent_query sum.case option.case if_True)

lemma query_None [simp]: "query sql params None = Inl InvalidFormatError"
  unfolding query_def by (simp only: py_percent_query sum.case option.case)

lemma query_overflow:
  "\<not> list_all sqlite_int params \<Longrightarrow> query sql params (Some rows) = Inl OverflowError"
  unfolding query_def by (simp only: py_percent_query sum.case option.case if_False)

lemma sqlite_int_sint: "sqlite_int (sint (v :: 64 word))"
  using sint_ge [of v] sint_lt [of v] by (simp add: sqlite_int_def)

lemma sqlite_int_at_coord:
  "at_coord z x y r \<Longrightarrow> list_all sqlite_int [z, x, y]"
  using sqlite_int_sint by (auto simp: at_coord_def)

subsection \<open>Archive lookups\<close>

text \<open>
  The debug line of \<^verbatim>\<open>MBTilesReader.tile\<close> gives three arguments to a format with one
  conversion, so the method raises TypeError before it queries the archive.
\<close>

lemma MBTilesReader_tile_raises:
  "MBTilesReader_tile rd db z x y output w = (Inl TypeError, w)"
  unfolding MBTilesReader_tile_def by (simp only: py_percent_extract_tile sum.case)

text \<open>
  C2. Archive tile lookup: the claim is that a tile stored at \<open>(z, x, stored_row)\<close> is
  written to the sink by \<^verbatim>\<open>tile(z, x, (2^z - 1) - stored_row, sink)\<close>. On the example
  archive, which stores a tile at \<open>(1, 0, 0)\<close>, the request for row \<open>1\<close> at zoom \<open>1\<close>
  raises TypeError and leaves the sink as it was.
\<close>

theorem MBTilesReader_tile_stored_tile:
  "MBTilesReader_tile example_reader example_archive 1 0 1 ''out.png'' example_world
   = (Inl TypeError, example_world)"
  by (simp add: MBTilesReader_tile_def)

text \<open>
  C4 (as amended). Missing grid header: when the zoom, the column and the converted row
  are integers that SQLite can bind (64 bits) and the \<^verbatim>\<open>grids\<close> table has no row at the
  converted coordinate, \<^verbatim>\<open>grid()\<close> raises ExtractionError, whatever the \<^verbatim>\<open>grid_data\<close>
  table holds.
\<close>

theorem grid_missing_header:
  assumes "sqlite_int (int z)" and "sqlite_int x" and "sqlite_int (y_mercator z y)"
    and "grids db = Some gs"
    and "filter (at_coord (int z) x (y_mercator z y)) gs = []"
  shows "MBTilesReader_grid L rd db z x y callback =
     Inl (ExtractionError (Some (''Could not extract grid ''
            @ repr_tuple [str_int (int z), str_int x, str_int y] @ '' from '' @ filename rd)))"
proof -
  have "query sql [int z, x, y_mercator z y] (Some gs) = Inr gs" for sql
    using assms(1-3) by (simp add: query_rows)
  then show ?thesis
    unfolding MBTilesReader_grid_def Let_def
    using assms(4,5) by (simp only: sum.case list.case py_percent_no_grid)
qed

theorem grid_missing_header_witness:
  "MBTilesReader_grid example_libs example_reader example_archive 1 0 1 None
   = Inl (ExtractionError (Some ''Could not extract grid (1, 0, 1) from a.mbtiles''))"
proof -
  have "str_int 1 = ''1''" "str_int 0 = ''0''"
    by code_simp+
  moreover have "grids example_archive
      = Some [\<lparr>zoom_level = 1, tile_column = 0, tile_row = 1, grid = ''}{''\<rparr>]"
    by (simp add: example_archive_def)
  moreover have "filter (at_coord (int 1) 0 (y_mercator 1 1))
      [\<lparr>zoom_level = 1, tile_column = 0, tile_row = 1, grid = ''}{''\<rparr>] = []"
    by (simp add: at_coord_def y_mercator_def)
  moreover have "sqlite_int (int 1)" "sqlite_int 0" "sqlite_int (y_mercator 1 1)"
    by (simp_all add: sqlite_int_def y_mercator_def)
  ultimately show ?thesis
    using grid_missing_header [of 1 0 1 example_archive _ example_libs example_reader None]
    by (simp add: repr_tuple_def example_reader_def)
qed

text \<open>
  The claim C4 as it is stated, for every coordinate, does not hold: at zoom 64 the
  converted row of row 0 is \<open>2^64 - 1\<close>, the example archive has no grid there, and
  \<^verbatim>\<open>grid()\<close> raises OverflowError when the row is bound to the statement.
\<close>

theorem grid_row_overflow:
  "MBTilesReader_grid example_libs example_reader example_archive 64 0 0 None = Inl OverflowError
   \<and> filter (at_coord (int 64) 0 (y_mercator 64 0)) (the (grids example_archive)) = []"
  by (simp add: MBTilesReader_grid_def query_def sqlite_int_def y_mercator_def at_coord_def
        example_archive_def)


subsection \<open>Grid assembly\<close>

lemma update_fresh_key:
  "k \<notin> fst ` set al \<Longrightarrow> AList.update k v al = al @ [(k, v)]"
  by (induction al) auto

lemma join_grid_data_distinct:
  assumes "map (\<lambda>r. json_loads L (key_json r)) rows = map Inr frags"
    and "distinct (map fst data @ map key_name rows)"
  shows "join_grid_data L rows data = Inr (data @ zip (map key_name rows) frags)"
  using assms
proof (induction rows arbitrary: data frags)
  case Nil
  then show ?case by simp
next
  case (Cons r rows)
  from Cons.prems(1) obtain v vs where frags: "frags = v # vs"
    and v: "json_loads L (key_json r) = Inr v"
    and vs: "map (\<lambda>r. json_loads L (key_json r)) rows = map Inr vs"
    by (cases frags) auto
  from Cons.prems(2) have fresh: "key_name r \<notin> fst ` set data"
    by auto
  have "distinct (map fst (data @ [(key_name r, v)]) @ map key_name rows)"
    using Cons.prems(2) by auto
  from Cons.IH [OF vs this] show ?case
    by (simp add: v frags update_fresh_key [OF fresh])
qed

lemma join_grid_data_last:
  assumes "map (\<lambda>r. json_loads L (key_json r)) rows = map Inr frags"
    and "distinct (map fst data)"
  shows "\<exists>data'. join_grid_data L rows data = Inr data' \<and> distinct (map fst data')
     \<and> map_of data' = map_of data ++ map_of (rev (zip (map key_name rows) frags))"
  using assms
proof (induction rows arbitrary: data frags)
  case Nil
  then show ?case by simp
next
  case (Cons r rows)
  from Cons.prems(1) obtain v vs where frags: "frags = v # vs"
    and v: "json_loads L (key_json r) = Inr v"
    and vs: "map (\<lambda>r. json_loads L (key_json r)) rows = map Inr vs"
    by (cases frags) auto
  have "distinct (map fst (AList.update (key_name r) v data))"
    using Cons.prems(2) by (simp add: AList.distinct_update)
  from Cons.IH [OF vs this] obtain data' where
    run: "join_grid_data L rows (AList.update (key_name r) v data) = Inr data'"
    and d: "distinct (map fst data')"
    and m: "map_of data' = map_of (AList.update (key_name r) v data)
              ++ map_of (rev (zip (map key_name rows) vs))"
    by blast
  have "map_of (AList.update (key_name r) v data) ++ map_of (rev (zip (map key_name rows) vs))
      = map_of data ++ map_of (rev (zip (map key_name (r # rows)) frags))"
    by (rule ext) (simp add: frags AList.update_conv' map_add_def split: option.splits)
  with run d m show ?case
    by (simp add: v)
qed

text \<open>
  C3 (as amended). Grid assembly: when the \<^verbatim>\<open>grids\<close> table has a row at the converted
  coordinate whose blob decompresses and parses to a JSON object, and the fragments of the
  \<^verbatim>\<open>grid_data\<close> rows at that coordinate parse, \<^verbatim>\<open>grid()\<close> returns \<^verbatim>\<open>callback(json);\<close> where
  the callback is \<^verbatim>\<open>grid\<close> unless a non-empty one is given and the document is the stored
  object with its \<^verbatim>\<open>data\<close> entry set to a dictionary that has exactly one entry per
  feature key of these rows and nothing else, the key with the parsed fragment of the
  last row that has it; when the rows have distinct keys, that is one entry per row.
\<close>

theorem grid_assembly:
  assumes "grids db = Some gs"
    and "filter (at_coord (int z) x (y_mercator z y)) gs = t # ts"
    and "zlib_decompress L (grid t) = Inr blob_text"
    and "json_loads L blob_text = Inr (JObj header)"
    and "grid_data db = Some ds"
    and "filter (at_coord (int z) x (y_mercator z y)) ds = rows"
    and "map (\<lambda>r. json_loads L (key_json r)) rows = map Inr frags"
  shows "\<exists>data. MBTilesReader_grid L rd db z x y callback =
       Inr ((case callback of None \<Rightarrow> ''grid'' | Some c \<Rightarrow> if c = [] then ''grid'' else c)
            @ ''('' @ json_dumps L (JObj (AList.update ''data'' (JObj data) header)) @ '');'')
     \<and> distinct (map fst data)
     \<and> set (map fst data) = set (map key_name rows)
     \<and> map_of data = map_of (rev (zip (map key_name rows) frags))
     \<and> (distinct (map key_name rows) \<longrightarrow> data = zip (map key_name rows) frags)"
proof -
  from join_grid_data_last [OF assms(7), of "[]"] obtain data where
    run: "join_grid_data L rows [] = Inr data" and d: "distinct (map fst data)"
    and m: "map_of data = map_of (rev (zip (map key_name rows) frags))"
    by auto
  have len: "length (map key_name rows) = length frags"
    using assms(7) by (metis length_map)
  have "fst ` set data = dom (map_of data)"
    by (simp add: dom_map_of_conv_image_fst)
  also have "\<dots> = fst ` set (rev (zip (map key_name rows) frags))"
    unfolding m by (simp only: dom_map_of_conv_image_fst)
  also have "\<dots> = set (map key_name rows)"
    using len by (metis list.set_map map_fst_zip set_rev)
  finally have keys: "set (map fst data) = set (map key_name rows)"
    by simp
  have zip: "data = zip (map key_name rows) frags" if "distinct (map key_name rows)"
    using join_grid_data_distinct [OF assms(7), of "[]"] that run by simp
  from assms(2) have "t \<in> set (filter (at_coord (int z) x (y_mercator z y)) gs)"
    by simp
  then have "at_coord (int z) x (y_mercator z y) t"
    by simp
  then have "list_all sqlite_int [int z, x, y_mercator z y]"
    by (rule sqlite_int_at_coord)
  then have q: "query sql [int z, x, y_mercator z y] (Some table) = Inr table" for sql
    and table :: "'r list"
    by (rule query_rows)
  have "MBTilesReader_grid L rd db z x y callback =
       Inr ((case callback of None \<Rightarrow> ''grid'' | Some c \<Rightarrow> if c = [] then ''grid'' else c)
            @ ''('' @ json_dumps L (JObj (AList.update ''data'' (JObj data) header)) @ '');'')"
    unfolding MBTilesReader_grid_def Let_def
    using assms(1-6) run
    by (simp only: q sum.case list.case set_item.simps py_percent_jsonp AList.update_last)
  with d keys m zip show ?thesis
    by blast
qed

theorem grid_assembly_witness:
  "MBTilesReader_grid example_libs example_reader example_archive 1 0 0 None
   = Inr ''grid(keys,data:a=1,b=2);''"
proof -
  let ?a = "\<lparr>zoom_level = 1, tile_column = 0, tile_row = 1, key_name = ''a'', key_json = ''1''\<rparr>"
  let ?b = "\<lparr>zoom_level = 1, tile_column = 0, tile_row = 1, key_name = ''b'', key_json = ''2''\<rparr>"
  let ?g = "\<lparr>zoom_level = 1, tile_column = 0, tile_row = 1, grid = ''}{''\<rparr>"
  have h1: "grids example_archive = Some [?g]"
    by (simp add: example_archive_def)
  have h2: "filter (at_coord (int 1) 0 (y_mercator 1 0)) [?g] = ?g # []"
    by (simp add: y_mercator_def at_coord_def)
  have h3: "zlib_decompress example_libs (grid ?g) = Inr ''{}''"
    by (simp add: example_libs_def)
  have h4: "json_loads example_libs ''{}'' = Inr (JObj [(''keys'', JArr [])])"
    by (simp add: example_libs_def)
  have h5: "grid_data example_archive = Some (the (grid_data example_archive))"
    by (simp add: example_archive_def)
  have h6: "filter (at_coord (int 1) 0 (y_mercator 1 0)) (the (grid_data example_archive)) = [?a, ?b]"
    by (simp add: y_mercator_def at_coord_def example_archive_def)
  have h7: "distinct (map key_name [?a, ?b])"
    by simp
  have h8: "map (\<lambda>r. json_loads example_libs (key_json r)) [?a, ?b] = map Inr [JStr ''1'', JStr ''2'']"
    by (simp add: example_libs_def)
  have out: "json_dumps example_libs
       (JObj (AList.update ''data'' (JObj (zip (map key_name [?a, ?b]) [JStr ''1'', JStr ''2'']))
          [(''keys'', JArr [])])) = ''keys,data:a=1,b=2''"
    by (simp add: example_libs_def example_dumps_def)
  from grid_assembly [OF h1 h2 h3 h4 h5 h6 h8, of example_reader None]
  obtain data where
    result: "MBTilesReader_grid example_libs example_reader example_archive 1 0 0 None
      = Inr ((case None of None \<Rightarrow> ''grid'' | Some c \<Rightarrow> if c = [] then ''grid'' else c)
            @ ''('' @ json_dumps example_libs
               (JObj (AList.update ''data'' (JObj data) [(''keys'', JArr [])])) @ '');'')"
    and rows: "distinct (map key_name [?a, ?b]) \<longrightarrow>
      data = zip (map key_name [?a, ?b]) [JStr ''1'', JStr ''2'']"
    by blast
  from rows h7 have "data = zip (map key_name [?a, ?b]) [JStr ''1'', JStr ''2'']"
    by (rule mp)
  with result show ?thesis
    unfolding out by (simp only: out option.case append.simps)
qed

text \<open>
  The claim C3 as it is stated, one entry per row for any rows, does not hold: with three
  rows at the coordinate, the first and the third under the key \<^verbatim>\<open>a\<close>, the dictionary
  has two entries, and \<^verbatim>\<open>a\<close> has the fragment of the third row.
\<close>

theorem grid_repeated_key:
  "MBTilesReader_grid example_libs example_reader duplicate_archive 1 0 0 None
     = Inr ''grid(keys,data:a=3,b=2);''
   \<and> length (filter (at_coord 1 0 (y_mercator 1 0)) (the (grid_data duplicate_archive))) = 3"
  by (simp add: MBTilesReader_grid_def query_def sqlite_int_def y_mercator_def at_coord_def
        duplicate_archive_def example_archive_def example_libs_def example_dumps_def)


subsection \<open>Coverage\<close>

lemma column_run_nonempty: "column_run (p # ps) \<noteq> []"
  by (cases ps) auto

lemma adjacent_scan_run:
  "sorted_wrt (\<lambda>p q. fst p \<le> fst q) (p # ps) \<Longrightarrow>
     adjacent_scan p ps = last (column_run (p # ps))"
proof (induction ps arbitrary: p)
  case Nil
  then show ?case by simp
next
  case (Cons q qs)
  then have le: "fst p \<le> fst q" and rest: "sorted_wrt (\<lambda>p q. fst p \<le> fst q) (q # qs)"
    by auto
  show ?case
    using le Cons.IH [OF rest] column_run_nonempty [of q qs] by auto
qed

lemma coverage_rows_less_eq:
  "sorted_wrt (\<lambda>p q. p \<le> q) (coverage_rows zoom rows)"
  unfolding coverage_rows_def by simp

lemma coverage_rows_column_then_row:
  "sorted_wrt column_then_row (coverage_rows zoom rows)"
  by (rule sorted_wrt_mono_rel [OF _ coverage_rows_less_eq])
    (auto simp: column_then_row_def less_eq_prod_def)

lemma coverage_rows_columns:
  "sorted_wrt (\<lambda>p q. fst p \<le> fst q) (coverage_rows zoom rows)"
  by (rule sorted_wrt_mono_rel [OF _ coverage_rows_less_eq])
    (auto simp: less_eq_prod_def)

lemma set_coverage_rows:
  "set (coverage_rows zoom rows)
     = (\<lambda>r. (sint (tile_column r), sint (tile_row r))) ` {r \<in> set rows. sint (zoom_level r) = zoom}"
  by (simp add: coverage_rows_def)

lemma length_coverage_rows:
  "length (coverage_rows zoom rows) = length (filter (\<lambda>r. sint (zoom_level r) = zoom) rows)"
  by (simp add: coverage_rows_def)

text \<open>
  C5. Coverage scan: at a zoom with at least one stored tile, \<^verbatim>\<open>find_coverage\<close> takes the
  (column, row) pairs of that zoom in ascending order of column, then row; it returns the
  conversions of \<open>(xmin*S, (ymax+1)*S)\<close> and \<open>((xmax+1)*S, ymin*S)\<close>, concatenated, where
  \<open>(xmin, ymin)\<close> is the first pair and \<open>(xmax, ymax)\<close> the last pair of the run that
  goes on while the next column differs from the previous one by at most 1.
\<close>

theorem find_coverage_scan:
  assumes "tiles db = Some rows"
    and "r \<in> set rows"
    and "sint (zoom_level r) = zoom"
  shows "MBTilesReader_find_coverage P rd db zoom
           = Inr (coverage_box P (tilesize rd) zoom (coverage_rows zoom rows))
       \<and> sorted_wrt column_then_row (coverage_rows zoom rows)
       \<and> set (coverage_rows zoom rows)
           = (\<lambda>r. (sint (tile_column r), sint (tile_row r)))
               ` {r \<in> set rows. sint (zoom_level r) = zoom}
       \<and> length (coverage_rows zoom rows)
           = length (filter (\<lambda>r. sint (zoom_level r) = zoom) rows)"
proof -
  from assms(2,3) have "(sint (tile_column r), sint (tile_row r)) \<in> set (coverage_rows zoom rows)"
    by (auto simp: set_coverage_rows)
  then obtain t rest where pairs: "coverage_rows zoom rows = t # rest"
    by (cases "coverage_rows zoom rows") auto
  have "sorted_wrt (\<lambda>p q. fst p \<le> fst q) (t # rest)"
    using coverage_rows_columns [of zoom rows] by (simp add: pairs)
  then have scan: "adjacent_scan t (t # rest) = last (column_run (t # rest))"
    using adjacent_scan_run [of t rest] by simp
  have "list_all sqlite_int [zoom]"
    using sqlite_int_sint [of "zoom_level r"] assms(3) by simp
  then have q: "query sql [zoom] (Some rows) = Inr rows" for sql
    by (rule query_rows)
  have "MBTilesReader_find_coverage P rd db zoom
      = Inr (coverage_box P (tilesize rd) zoom (coverage_rows zoom rows))"
    unfolding MBTilesReader_find_coverage_def coverage_box_def
    using scan
    by (simp add: assms(1) q pairs Let_def split_beta del: adjacent_scan.simps column_run.simps)
  then show ?thesis
    using coverage_rows_column_then_row set_coverage_rows length_coverage_rows by blast
qed

theorem find_coverage_scan_witness:
  "MBTilesReader_find_coverage example_projection example_reader example_archive 1
     = Inr [0, 512, 512, 0]
   \<and> coverage_rows 1 (the (tiles example_archive)) = [(0, 0), (1, 0), (1, 1)]"
proof -
  let ?r = "\<lparr>zoom_level = 1, tile_column = 1, tile_row = 1, tile_data = ''T3''\<rparr>"
  have h1: "tiles example_archive = Some (the (tiles example_archive))"
    by (simp add: example_archive_def)
  have h2: "?r \<in> set (the (tiles example_archive))"
    by (simp add: example_archive_def)
  have h3: "sint (zoom_level ?r) = 1"
    by simp
  have pairs: "coverage_rows 1 (the (tiles example_archive)) = [(0, 0), (1, 0), (1, 1)]"
    by (simp add: coverage_rows_def example_archive_def less_eq_prod_def)
  have box: "coverage_box example_projection (tilesize example_reader) 1 [(0, 0), (1, 0), (1, 1)]
      = [0, 512, 512, 0]"
    by (simp add: coverage_box_def example_projection_def example_reader_def)
  show ?thesis
    using find_coverage_scan [OF h1 h2 h3, of example_projection example_reader]
    unfolding pairs box by simp
qed

lemma find_coverage_no_tiles:
  assumes "tiles db = Some rows"
    and "sqlite_int zoom"
    and "filter (\<lambda>r. sint (zoom_level r) = zoom) rows = []"
  shows "MBTilesReader_find_coverage P rd db zoom = Inl TypeError"
  unfolding MBTilesReader_find_coverage_def coverage_rows_def
  using assms by (simp add: query_rows)

text \<open>
  C6. Coverage on an empty zoom level: the claim is that \<^verbatim>\<open>find_coverage\<close> raises
  ExtractionError at a zoom without tiles. The example archive has no tile at zoom 2, and
  there the method raises TypeError, from unpacking the row that is not there.
\<close>

theorem find_coverage_empty_zoom:
  "MBTilesReader_find_coverage example_projection example_reader example_archive 2
     = Inl TypeError"
  by (simp add: MBTilesReader_find_coverage_def coverage_rows_def example_archive_def
        query_def sqlite_int_def)


subsection \<open>The retry loop\<close>

lemma py_percent_retry [simp]:
  "py_percent ''Download error, retry (%s left). (%s)'' [a, b] =
     Inr (''Download error, retry ('' @ a @ '' left). ('' @ b @ '')'')"
  by simp

lemma py_percent_download_tile [simp]:
  "py_percent ''Download tile %s'' [a] = Inr (''Download tile '' @ a)"
  by simp

lemma py_percent_retrieve [simp]:
  "py_percent ''Retrieve tile at %s'' [a] = Inr (''Retrieve tile at '' @ a)"
  by simp

lemma py_percent_unknown [simp]:
  "py_percent ''Unknown keyword %s in URL'' [a] = Inr (''Unknown keyword '' @ a @ '' in URL'')"
  by simp

lemma download_loop_step:
  "download_loop net u output r w =
     (if r > 0 then
        (case retrieve net u output w of
           (Inr r', w') \<Rightarrow> (Inr (), w')
         | (Inl msg, w') \<Rightarrow> download_loop net u output (r - 1) w')
      else (Inl (DownloadError None), w))"
  by (subst download_loop.simps) (simp only: py_percent_retry sum.case)

lemma download_loop_nat: "download_loop net u output r w = download_loop net u output (int (nat r)) w"
  by (cases "r \<ge> 0") (simp_all add: download_loop_step [of _ _ _ r] download_loop_step [of _ _ _ 0])

lemma retrieve_failed:
  assumes "failed (net (calls w) u)"
  shows "\<exists>msg w'. retrieve net u output w = (Inl msg, w') \<and> calls w' = Suc (calls w)
     \<and> (\<forall>body c. w'\<lparr>fs := (fs w')(output \<mapsto> body), calls := c\<rparr>
                      = w\<lparr>fs := (fs w)(output \<mapsto> body), calls := c\<rparr>)"
  using assms by (cases "net (calls w) u") (simp_all add: retrieve_def failed_def)

lemma download_loop_exhausted:
  "(\<forall>k < n. failed (net (calls w + k) u)) \<Longrightarrow>
     fst (download_loop net u output (int n) w) = Inl (DownloadError None)
     \<and> calls (snd (download_loop net u output (int n) w)) = calls w + n"
proof (induction n arbitrary: w)
  case 0
  then show ?case by (simp add: download_loop_step)
next
  case (Suc n)
  from Suc.prems have "failed (net (calls w) u)"
    by (metis add.right_neutral zero_less_Suc)
  then obtain w' msg where step: "retrieve net u output w = (Inl msg, w')" and c: "calls w' = Suc (calls w)"
    using retrieve_failed [of net w u "output"] by blast
  have "\<forall>k < n. failed (net (calls w' + k) u)"
    using Suc.prems c by auto
  from Suc.IH [OF this] show ?case
    by (subst (1 2) download_loop_step) (simp add: step c)
qed

lemma download_loop_success:
  "m < n \<Longrightarrow> (\<forall>k < m. failed (net (calls w + k) u)) \<Longrightarrow>
     net (calls w + m) u = Transferred body \<Longrightarrow>
     download_loop net u output (int n) w
       = (Inr (), w\<lparr>fs := (fs w)(output \<mapsto> body), calls := calls w + m + 1\<rparr>)"
proof (induction m arbitrary: n w)
  case 0
  then show ?case
    by (subst download_loop_step) (simp add: retrieve_def)
next
  case (Suc m)
  from Suc.prems obtain n' where n: "n = Suc n'" and less: "m < n'"
    by (cases n) auto
  from Suc.prems(2) have "failed (net (calls w) u)"
    by (metis add.right_neutral zero_less_Suc)
  then obtain w' msg where step: "retrieve net u output w = (Inl msg, w')"
    and c: "calls w' = Suc (calls w)"
    and same: "w'\<lparr>fs := (fs w')(output \<mapsto> body), calls := calls w + Suc m + 1\<rparr>
                = w\<lparr>fs := (fs w)(output \<mapsto> body), calls := calls w + Suc m + 1\<rparr>"
    using retrieve_failed [of net w u "output"] by blast
  have fails: "\<forall>k < m. failed (net (calls w' + k) u)"
    using Suc.prems(2) c by auto
  have ok: "net (calls w' + m) u = Transferred body"
    using Suc.prems(3) c by simp
  have "download_loop net u output (int n') w'
      = (Inr (), w'\<lparr>fs := (fs w')(output \<mapsto> body), calls := calls w' + m + 1\<rparr>)"
    by (rule Suc.IH [OF less fails ok])
  then show ?case
    using same by (subst download_loop_step) (simp add: step n c)
qed

lemma download_loop_calls:
  "calls (snd (download_loop net u output (int n) w)) \<le> calls w + n"
proof (induction n arbitrary: w)
  case 0
  then show ?case by (simp add: download_loop_step)
next
  case (Suc n)
  show ?case
  proof (cases "net (calls w) u")
    case (Transferred body)
    then show ?thesis
      by (subst download_loop_step) (simp add: retrieve_def)
  next
    case (OpenFailed msg)
    then show ?thesis
      using Suc.IH [of "w\<lparr>calls := Suc (calls w)\<rparr>"]
      by (subst download_loop_step) (simp add: retrieve_def)
  next
    case (Interrupted part msg)
    then show ?thesis
      using Suc.IH [of "w\<lparr>fs := (fs w)(output \<mapsto> part), calls := Suc (calls w)\<rparr>"]
      by (subst download_loop_step) (simp add: retrieve_def)
  qed
qed

lemma TileDownloader_tile_loop:
  assumes "tiles_subdomains rd \<noteq> []"
    and "py_format F (tiles_url rd)
           (tile_locals z x y out (tilesize rd)
              (tiles_subdomains rd ! nat ((x + y) mod int (length (tiles_subdomains rd))))) = Inr u"
  shows "TileDownloader_tile F R net rd z x y out w = download_loop net u out R w"
  unfolding TileDownloader_tile_def Let_def
  using assms by (simp only: py_percent_download_tile py_percent_retrieve sum.case if_False)

lemma example_url:
  "py_format example_formatter (tiles_url example_downloader)
     (tile_locals 2 3 1 ''out.png'' (tilesize example_downloader)
        (tiles_subdomains example_downloader
           ! nat ((3 + 1) mod int (length (tiles_subdomains example_downloader)))))
   = Inr ''http://a.tile.test/2/3/1.png''"
  by code_simp

text \<open>
  C7. Retry boundary: once the URL is rendered, with the retry budget \<open>R\<close>: when the
  first \<open>R - 1\<close> transfer attempts fail and the next one succeeds the downloader returns
  success; when \<open>R\<close> attempts in a row fail it raises the bare DownloadError, after
  \<open>R\<close> attempts; it never makes more than \<open>R\<close> attempts; and the first attempt that
  succeeds, the one after \<open>m < R\<close> failures, is the last one made.
\<close>

theorem retry_boundary:
  assumes "tiles_subdomains rd \<noteq> []"
    and "py_format F (tiles_url rd)
           (tile_locals z x y out (tilesize rd)
              (tiles_subdomains rd ! nat ((x + y) mod int (length (tiles_subdomains rd))))) = Inr u"
  shows "(0 < R \<and> (\<forall>k < nat R - 1. failed (net (calls w + k) u))
            \<and> net (calls w + (nat R - 1)) u = Transferred body
          \<longrightarrow> TileDownloader_tile F R net rd z x y out w
                = (Inr (), w\<lparr>fs := (fs w)(out \<mapsto> body), calls := calls w + nat R\<rparr>))
       \<and> ((\<forall>k < nat R. failed (net (calls w + k) u))
          \<longrightarrow> fst (TileDownloader_tile F R net rd z x y out w) = Inl (DownloadError None)
              \<and> calls (snd (TileDownloader_tile F R net rd z x y out w)) = calls w + nat R)
       \<and> calls (snd (TileDownloader_tile F R net rd z x y out w)) \<le> calls w + nat R
       \<and> (m < nat R \<and> (\<forall>k < m. failed (net (calls w + k) u))
            \<and> net (calls w + m) u = Transferred body'
          \<longrightarrow> TileDownloader_tile F R net rd z x y out w
                = (Inr (), w\<lparr>fs := (fs w)(out \<mapsto> body'), calls := calls w + m + 1\<rparr>))"
proof -
  have loop: "TileDownloader_tile F R net rd z x y out w = download_loop net u out (int (nat R)) w"
    using TileDownloader_tile_loop [OF assms] download_loop_nat by simp
  have first: "TileDownloader_tile F R net rd z x y out w
      = (Inr (), w\<lparr>fs := (fs w)(out \<mapsto> body), calls := calls w + nat R\<rparr>)"
    if "0 < R" "\<forall>k < nat R - 1. failed (net (calls w + k) u)"
      "net (calls w + (nat R - 1)) u = Transferred body"
  proof -
    from that(1) have "nat R - 1 < nat R" by simp
    from download_loop_success [of "nat R - 1" "nat R" net w u body out, OF this that(2,3)] that(1)
    show ?thesis
      by (simp add: loop)
  qed
  have any: "TileDownloader_tile F R net rd z x y out w
      = (Inr (), w\<lparr>fs := (fs w)(out \<mapsto> body'), calls := calls w + m + 1\<rparr>)"
    if "m < nat R" "\<forall>k < m. failed (net (calls w + k) u)"
      "net (calls w + m) u = Transferred body'"
    using download_loop_success [of m "nat R" net w u body' out, OF that] by (simp add: loop)
  show ?thesis
    using first any download_loop_exhausted [of "nat R" net w u out]
      download_loop_calls [of net u out "nat R" w]
    unfolding loop by blast
qed

theorem retry_boundary_witness:
  "TileDownloader_tile example_formatter 3 (flaky_net 2) example_downloader 2 3 1 ''out.png''
       example_world
     = (Inr (), \<lparr>fs = [''out.png'' \<mapsto> ''PNG''], calls = 3\<rparr>)
   \<and> fst (TileDownloader_tile example_formatter 3 (flaky_net 3) example_downloader 2 3 1
            ''out.png'' example_world) = Inl (DownloadError None)
   \<and> calls (snd (TileDownloader_tile example_formatter 3 (flaky_net 3) example_downloader 2 3 1
            ''out.png'' example_world)) = 3"
proof -
  have h1: "tiles_subdomains example_downloader \<noteq> []"
    by (simp add: example_downloader_def)
  have ok: "0 < (3::int) \<and> (\<forall>k < nat 3 - 1. failed (flaky_net 2 (calls example_world + k)
                ''http://a.tile.test/2/3/1.png''))
      \<and> flaky_net 2 (calls example_world + (nat 3 - 1)) ''http://a.tile.test/2/3/1.png''
          = Transferred ''PNG''"
    by (simp add: flaky_net_def failed_def example_world_def)
  have bad: "\<forall>k < nat 3. failed (flaky_net 3 (calls example_world + k)
                ''http://a.tile.test/2/3/1.png'')"
    by (simp add: flaky_net_def failed_def example_world_def)
  have good: "TileDownloader_tile example_formatter 3 (flaky_net 2) example_downloader 2 3 1
        ''out.png'' example_world
      = (Inr (), example_world\<lparr>fs := (fs example_world)(''out.png'' \<mapsto> ''PNG''),
                                calls := calls example_world + nat 3\<rparr>)"
    using retry_boundary [OF h1 example_url, where R = 3 and net = "flaky_net 2"
        and w = example_world and body = "''PNG''" and m = 0 and body' = "[]"] ok
    by blast
  have exhausted: "fst (TileDownloader_tile example_formatter 3 (flaky_net 3) example_downloader
        2 3 1 ''out.png'' example_world) = Inl (DownloadError None)
      \<and> calls (snd (TileDownloader_tile example_formatter 3 (flaky_net 3) example_downloader
        2 3 1 ''out.png'' example_world)) = calls example_world + nat 3"
    using retry_boundary [OF h1 example_url, where R = 3 and net = "flaky_net 3"
        and w = example_world and body = "[]" and m = 0 and body' = "[]"] bad
    by blast
  show ?thesis
    using good exhausted by (simp add: example_world_def)
qed


subsection \<open>The sink\<close>

lemma py_percent_wms_tile [simp]:
  "py_percent ''Request WMS tile %s'' [a] = Inr (''Request WMS tile '' @ a)"
  by simp

lemma py_percent_wms_url [simp]:
  "py_percent ''%s?%s'' [a, b] = Inr (a @ ''?'' @ b)"
  by simp

lemma py_percent_wms_bbox [simp]:
  "py_percent ''&bbox=%s'' [a] = Inr (''&bbox='' @ a)"
  by simp

lemma py_percent_wms_download [simp]:
  "py_percent (''Download '' @ [CHR 0x27] @ ''%s'' @ [CHR 0x27]) [a]
     = Inr (''Download '' @ [CHR 0x27] @ a @ [CHR 0x27])"
  by simp

lemma download_loop_Suc:
  "download_loop net u out (int (Suc n)) w =
     (case net (calls w) u of
        Transferred body \<Rightarrow> (Inr (), w\<lparr>fs := (fs w)(out \<mapsto> body), calls := Suc (calls w)\<rparr>)
      | OpenFailed msg \<Rightarrow> download_loop net u out (int n) (w\<lparr>calls := Suc (calls w)\<rparr>)
      | Interrupted part msg \<Rightarrow>
          download_loop net u out (int n) (w\<lparr>fs := (fs w)(out \<mapsto> part), calls := Suc (calls w)\<rparr>))"
  by (subst download_loop_step) (simp add: retrieve_def split: transfer.splits)

lemma download_loop_refused:
  "(\<forall>k < n. refused (net (calls w + k) u)) \<Longrightarrow>
     download_loop net u out (int n) w
       = (Inl (DownloadError None), w\<lparr>calls := calls w + n\<rparr>)"
proof (induction n arbitrary: w)
  case 0
  then show ?case by (simp add: download_loop_step)
next
  case (Suc n)
  from Suc.prems have "refused (net (calls w) u)"
    by (metis add.right_neutral zero_less_Suc)
  then obtain msg where first: "net (calls w) u = OpenFailed msg"
    by (cases "net (calls w) u") (simp_all add: refused_def)
  let ?w = "w\<lparr>calls := Suc (calls w)\<rparr>"
  have eq: "download_loop net u out (int (Suc n)) w = download_loop net u out (int n) ?w"
    using first by (simp only: download_loop_Suc transfer.case)
  have "\<forall>k < n. refused (net (calls ?w + k) u)"
    using Suc.prems by auto
  from Suc.IH [OF this] show ?case
    unfolding eq by simp
qed

lemma download_loop_interrupted:
  "j < n \<Longrightarrow> (\<forall>k < j. failed (net (calls w + k) u)) \<Longrightarrow>
     net (calls w + j) u = Interrupted part msg \<Longrightarrow>
     (\<forall>k. j < k \<and> k < n \<longrightarrow> refused (net (calls w + k) u)) \<Longrightarrow>
     download_loop net u out (int n) w
       = (Inl (DownloadError None), w\<lparr>fs := (fs w)(out \<mapsto> part), calls := calls w + n\<rparr>)"
proof (induction j arbitrary: n w)
  case 0
  then obtain n' where n: "n = Suc n'"
    by (cases n) auto
  let ?w = "w\<lparr>fs := (fs w)(out \<mapsto> part), calls := Suc (calls w)\<rparr>"
  have eq: "download_loop net u out (int (Suc n')) w = download_loop net u out (int n') ?w"
    using "0.prems"(3) by (simp only: download_loop_Suc add_0_right transfer.case)
  have "\<forall>k < n'. refused (net (calls ?w + k) u)"
    using "0.prems"(4) n by auto
  from download_loop_refused [of n' net ?w u out] this
  have "download_loop net u out (int n') ?w
      = (Inl (DownloadError None), ?w\<lparr>calls := calls ?w + n'\<rparr>)" .
  moreover have "?w\<lparr>calls := calls ?w + n'\<rparr>
      = w\<lparr>fs := (fs w)(out \<mapsto> part), calls := calls w + Suc n'\<rparr>"
    by (cases w) simp
  ultimately show ?case
    unfolding n eq by (rule trans [OF _ arg_cong [where f = "Pair (Inl (DownloadError None))"]])
next
  case (Suc j)
  from Suc.prems obtain n' where n: "n = Suc n'" and less: "j < n'"
    by (cases n) auto
  from Suc.prems(2) have "failed (net (calls w) u)"
    by (metis add.right_neutral zero_less_Suc)
  then obtain w' msg' where step: "retrieve net u out w = (Inl msg', w')"
    and c: "calls w' = Suc (calls w)"
    and same: "w'\<lparr>fs := (fs w')(out \<mapsto> part), calls := calls w + n\<rparr>
                = w\<lparr>fs := (fs w)(out \<mapsto> part), calls := calls w + n\<rparr>"
    using retrieve_failed [of net w u out] by blast
  have fails: "\<forall>k < j. failed (net (calls w' + k) u)"
    using Suc.prems(2) c by auto
  have stop: "net (calls w' + j) u = Interrupted part msg"
    using Suc.prems(3) c by simp
  have after: "\<forall>k. j < k \<and> k < n' \<longrightarrow> refused (net (calls w' + k) u)"
    using Suc.prems(4) c n by auto
  have "download_loop net u out (int n') w'
      = (Inl (DownloadError None), w'\<lparr>fs := (fs w')(out \<mapsto> part), calls := calls w' + n'\<rparr>)"
    by (rule Suc.IH [OF less fails stop after])
  then show ?case
    using same by (subst download_loop_step) (simp add: step n c)
qed

lemma TileDownloader_tile_not_rendered:
  assumes "tiles_subdomains rd = []
    \<or> py_format F (tiles_url rd)
           (tile_locals z x y out (tilesize rd)
              (tiles_subdomains rd ! nat ((x + y) mod int (length (tiles_subdomains rd))))) = Inl e"
  shows "\<exists>e'. TileDownloader_tile F R net rd z x y out w = (Inl e', w)"
proof (cases "tiles_subdomains rd = []")
  case True
  then have "TileDownloader_tile F R net rd z x y out w = (Inl ZeroDivisionError, w)"
    unfolding TileDownloader_tile_def Let_def
    by (simp only: py_percent_download_tile sum.case if_True simp_thms)
  then show ?thesis by blast
next
  case False
  with assms have "py_format F (tiles_url rd)
           (tile_locals z x y out (tilesize rd)
              (tiles_subdomains rd ! nat ((x + y) mod int (length (tiles_subdomains rd))))) = Inl e"
    by blast
  with False show ?thesis
    unfolding TileDownloader_tile_def Let_def
    by (cases e)
      (simp_all only: py_percent_download_tile py_percent_unknown sum.case error.case if_False,
        blast+)
qed

lemma WMSReader_url_text:
  "WMSReader_url P enc rd z x y =
     Inr (url rd @ ''?'' @ enc (wmsParams rd) @ ''&bbox='' @
          join '','' (map (str_coord P)
            (project P (tilesize rd) [z] (take 2 (tile_bbox P (tilesize rd) [z] (z, x, y)))
             @ project P (tilesize rd) [z] (drop 2 (tile_bbox P (tilesize rd) [z] (z, x, y))))))"
  unfolding WMSReader_url_def Let_def
  by (simp only: py_percent_wms_url py_percent_wms_bbox sum.case append_assoc)

lemma WMSReader_tile_request:
  assumes "WMSReader_url P enc rd z x y = Inr u"
  shows "WMSReader_tile P enc net rd z x y out w =
     (case net (calls w) u of
        Unreachable \<Rightarrow> (Inl (ExtractionError None), w\<lparr>calls := Suc (calls w)\<rparr>)
      | Response header body \<Rightarrow>
         (case wmsParams rd ''format'' of
            None \<Rightarrow> (Inl (KeyError ''format''), w\<lparr>calls := Suc (calls w)\<rparr>)
          | Some fmt \<Rightarrow>
             if \<not> header_matches header fmt
             then (Inl (ExtractionError None), w\<lparr>calls := Suc (calls w)\<rparr>)
             else
               (case body of
                  None \<Rightarrow>
                    (Inl (ExtractionError None),
                     w\<lparr>calls := Suc (calls w), fs := (fs w)(out \<mapsto> [])\<rparr>)
                | Some content \<Rightarrow>
                    (Inr (), w\<lparr>calls := Suc (calls w), fs := (fs w)(out \<mapsto> content)\<rparr>))))"
  unfolding WMSReader_tile_def Let_def
  by (simp only: assms py_percent_wms_tile py_percent_wms_download sum.case)

text \<open>
  C8 (as amended). The sink after a fetch, for each kind of reader. The remote downloader,
  once the URL is rendered: when an attempt succeeds after failed ones, it returns with
  the body of that attempt in the sink; when every attempt of the budget fails to open
  the URL, it raises DownloadError with the sink as it was; when an attempt stops after
  the output file was opened and every later attempt fails to open the URL, it raises
  DownloadError with the partial data of that attempt in the sink. When the URL is not
  rendered (no subdomain, or the template fails), it raises with the world as it was.
  The WMS requester: when the response has the content type asked for and its body is
  read, it returns with the body in the sink; when the server cannot be reached, or the
  content type is another one, it raises ExtractionError with the sink as it was; when
  the content type is the one asked for and reading the body fails, it raises
  ExtractionError with the sink emptied. The base reader raises NotImplementedError and
  the renderer raises, with the world as it was, and a fetch of the archive reader that
  raises leaves the world as it was.
\<close>

theorem sink_after_fetch:
  "(tiles_subdomains rd \<noteq> []
      \<and> py_format F (tiles_url rd)
           (tile_locals z x y out (tilesize rd)
              (tiles_subdomains rd ! nat ((x + y) mod int (length (tiles_subdomains rd))))) = Inr u
    \<longrightarrow>
      (\<forall>m body. m < nat R \<and> (\<forall>k < m. failed (net (calls w + k) u))
           \<and> net (calls w + m) u = Transferred body \<longrightarrow>
         TileDownloader_tile F R net rd z x y out w
           = (Inr (), w\<lparr>fs := (fs w)(out \<mapsto> body), calls := calls w + m + 1\<rparr>))
      \<and> ((\<forall>k < nat R. refused (net (calls w + k) u)) \<longrightarrow>
         TileDownloader_tile F R net rd z x y out w
           = (Inl (DownloadError None), w\<lparr>calls := calls w + nat R\<rparr>))
      \<and> (\<forall>j part msg. j < nat R \<and> (\<forall>k < j. failed (net (calls w + k) u))
           \<and> net (calls w + j) u = Interrupted part msg
           \<and> (\<forall>k. j < k \<and> k < nat R \<longrightarrow> refused (net (calls w + k) u)) \<longrightarrow>
         TileDownloader_tile F R net rd z x y out w
           = (Inl (DownloadError None),
              w\<lparr>fs := (fs w)(out \<mapsto> part), calls := calls w + nat R\<rparr>)))
   \<and> ((tiles_subdomains rd = []
        \<or> (\<exists>e. py_format F (tiles_url rd)
             (tile_locals z x y out (tilesize rd)
                (tiles_subdomains rd ! nat ((x + y) mod int (length (tiles_subdomains rd)))))
             = Inl e))
    \<longrightarrow> (\<exists>e'. TileDownloader_tile F R net rd z x y out w = (Inl e', w)))
   \<and> (\<exists>wu. WMSReader_url P enc wrd z x y = Inr wu)
   \<and> (WMSReader_url P enc wrd z x y = Inr wu \<and> wmsParams wrd ''format'' = Some fmt
    \<longrightarrow>
      (\<forall>h content. wnet (calls w) wu = Response h (Some content) \<and> header_matches h fmt \<longrightarrow>
         WMSReader_tile P enc wnet wrd z x y out w
           = (Inr (), w\<lparr>calls := Suc (calls w), fs := (fs w)(out \<mapsto> content)\<rparr>))
      \<and> (wnet (calls w) wu = Unreachable \<longrightarrow>
         WMSReader_tile P enc wnet wrd z x y out w
           = (Inl (ExtractionError None), w\<lparr>calls := Suc (calls w)\<rparr>))
      \<and> (\<forall>h b. wnet (calls w) wu = Response h b \<and> \<not> header_matches h fmt \<longrightarrow>
         WMSReader_tile P enc wnet wrd z x y out w
           = (Inl (ExtractionError None), w\<lparr>calls := Suc (calls w)\<rparr>))
      \<and> (\<forall>h. wnet (calls w) wu = Response h None \<and> header_matches h fmt \<longrightarrow>
         WMSReader_tile P enc wnet wrd z x y out w
           = (Inl (ExtractionError None),
              w\<lparr>calls := Suc (calls w), fs := (fs w)(out \<mapsto> [])\<rparr>)))
   \<and> Reader_tile z x y out w = (Inl NotImplementedError, w)
   \<and> (\<exists>e. MapnikRenderer_tile z x y out w = (Inl e, w))
   \<and> (\<forall>e. fst (MBTilesReader_tile ard db zoom x y out w) = Inl e \<longrightarrow>
         snd (MBTilesReader_tile ard db zoom x y out w) = w)"
proof -
  let ?kw = "tile_locals z x y out (tilesize rd)
      (tiles_subdomains rd ! nat ((x + y) mod int (length (tiles_subdomains rd))))"
  let ?t = "TileDownloader_tile F R net rd z x y out w"
  let ?wms = "WMSReader_tile P enc wnet wrd z x y out w"
  have downloader: "(\<forall>m body. m < nat R \<and> (\<forall>k < m. failed (net (calls w + k) u))
           \<and> net (calls w + m) u = Transferred body \<longrightarrow>
         ?t = (Inr (), w\<lparr>fs := (fs w)(out \<mapsto> body), calls := calls w + m + 1\<rparr>))
      \<and> ((\<forall>k < nat R. refused (net (calls w + k) u)) \<longrightarrow>
         ?t = (Inl (DownloadError None), w\<lparr>calls := calls w + nat R\<rparr>))
      \<and> (\<forall>j part msg. j < nat R \<and> (\<forall>k < j. failed (net (calls w + k) u))
           \<and> net (calls w + j) u = Interrupted part msg
           \<and> (\<forall>k. j < k \<and> k < nat R \<longrightarrow> refused (net (calls w + k) u)) \<longrightarrow>
         ?t = (Inl (DownloadError None),
              w\<lparr>fs := (fs w)(out \<mapsto> part), calls := calls w + nat R\<rparr>))"
    if "tiles_subdomains rd \<noteq> []" "py_format F (tiles_url rd) ?kw = Inr u"
  proof -
    have loop: "?t = download_loop net u out (int (nat R)) w"
      using TileDownloader_tile_loop [OF that] download_loop_nat by simp
    show ?thesis
      unfolding loop
      using download_loop_success [of _ "nat R" net w u _ out]
        download_loop_refused [of "nat R" net w u out]
        download_loop_interrupted [of _ "nat R" net w u _ _ out]
      by blast
  qed
  have not_rendered: "\<exists>e'. ?t = (Inl e', w)"
    if "tiles_subdomains rd = [] \<or> (\<exists>e. py_format F (tiles_url rd) ?kw = Inl e)"
    using that TileDownloader_tile_not_rendered [of rd F z x y out _ R net w] by blast
  have built: "\<exists>wu. WMSReader_url P enc wrd z x y = Inr wu"
    using WMSReader_url_text [of P enc wrd z x y] by blast
  have wms: "(\<forall>h content. wnet (calls w) wu = Response h (Some content) \<and> header_matches h fmt \<longrightarrow>
         ?wms = (Inr (), w\<lparr>calls := Suc (calls w), fs := (fs w)(out \<mapsto> content)\<rparr>))
      \<and> (wnet (calls w) wu = Unreachable \<longrightarrow>
         ?wms = (Inl (ExtractionError None), w\<lparr>calls := Suc (calls w)\<rparr>))
      \<and> (\<forall>h b. wnet (calls w) wu = Response h b \<and> \<not> header_matches h fmt \<longrightarrow>
         ?wms = (Inl (ExtractionError None), w\<lparr>calls := Suc (calls w)\<rparr>))
      \<and> (\<forall>h. wnet (calls w) wu = Response h None \<and> header_matches h fmt \<longrightarrow>
         ?wms = (Inl (ExtractionError None),
              w\<lparr>calls := Suc (calls w), fs := (fs w)(out \<mapsto> [])\<rparr>))"
    if "WMSReader_url P enc wrd z x y = Inr wu" "wmsParams wrd ''format'' = Some fmt"
    unfolding WMSReader_tile_request [OF that(1)] that(2)
    by (auto simp only: wms_response.case option.case if_True if_False simp_thms)
  have base: "Reader_tile z x y out w = (Inl NotImplementedError, w)"
    by (simp add: Reader_tile_def)
  have renderer: "\<exists>e. MapnikRenderer_tile z x y out w = (Inl e, w)"
    unfolding MapnikRenderer_tile_def
    by (cases "py_percent ''Render tile %s'' [str_int z, str_int x, str_int y]")
      (simp_all only: sum.case, blast+)
  have archive: "\<forall>e. fst (MBTilesReader_tile ard db zoom x y out w) = Inl e \<longrightarrow>
      snd (MBTilesReader_tile ard db zoom x y out w) = w"
    by (simp only: MBTilesReader_tile_raises snd_conv simp_thms)
  from downloader not_rendered built wms base renderer archive show ?thesis
    by blast
qed

theorem sink_after_fetch_witness:
  "TileDownloader_tile example_formatter 3 (flaky_net 2) example_downloader 2 3 1 ''out.png''
       example_world
     = (Inr (), example_world\<lparr>fs := (fs example_world)(''out.png'' \<mapsto> ''PNG''),
                              calls := calls example_world + 2 + 1\<rparr>)
   \<and> TileDownloader_tile example_formatter 3 refusing_net example_downloader 2 3 1 ''out.png''
       example_world
     = (Inl (DownloadError None), example_world\<lparr>calls := calls example_world + nat 3\<rparr>)
   \<and> TileDownloader_tile example_formatter 3 stalling_net example_downloader 2 3 1 ''out.png''
       example_world
     = (Inl (DownloadError None),
        example_world\<lparr>fs := (fs example_world)(''out.png'' \<mapsto> ''PN''),
                       calls := calls example_world + nat 3\<rparr>)
   \<and> (\<exists>e'. TileDownloader_tile example_formatter 3 refusing_net unknown_downloader 2 3 1
          ''out.png'' example_world = (Inl e', example_world))
   \<and> WMSReader_tile example_projection example_urlencode jpeg_server example_wms 2 3 1
       ''out.png'' example_world
     = (Inr (), example_world\<lparr>calls := Suc (calls example_world),
                              fs := (fs example_world)(''out.png'' \<mapsto> ''JPEG'')\<rparr>)
   \<and> WMSReader_tile example_projection example_urlencode unreachable_server example_wms 2 3 1
       ''out.png'' example_world
     = (Inl (ExtractionError None), example_world\<lparr>calls := Suc (calls example_world)\<rparr>)
   \<and> WMSReader_tile example_projection example_urlencode error_server example_wms 2 3 1
       ''out.png'' example_world
     = (Inl (ExtractionError None), example_world\<lparr>calls := Suc (calls example_world)\<rparr>)
   \<and> WMSReader_tile example_projection example_urlencode broken_server example_wms 2 3 1
       ''out.png'' example_world
     = (Inl (ExtractionError None),
        example_world\<lparr>calls := Suc (calls example_world),
                       fs := (fs example_world)(''out.png'' \<mapsto> [])\<rparr>)
   \<and> snd (MBTilesReader_tile example_reader example_archive 1 3 1 ''out.png'' example_world)
     = example_world"
proof -
  let ?u = "''http://a.tile.test/2/3/1.png''"
  obtain wu where wu: "WMSReader_url example_projection example_urlencode example_wms 2 3 1 = Inr wu"
    using WMSReader_url_text by blast
  have fmt: "wmsParams example_wms ''format'' = Some (VStr ''image/jpeg'')"
    by (simp add: example_wms_def)
  have subdomains: "tiles_subdomains example_downloader \<noteq> []"
    by (simp add: example_downloader_def)
  have budget: "2 < nat 3"
    by simp
  have flaky: "\<forall>k < 2. failed (flaky_net 2 (calls example_world + k) ?u)"
    "flaky_net 2 (calls example_world + 2) ?u = Transferred ''PNG''"
    by (simp_all add: flaky_net_def failed_def example_world_def)
  have refusing: "\<forall>k < nat 3. refused (refusing_net (calls example_world + k) ?u)"
    by (simp add: refusing_net_def refused_def)
  have stalling: "0 < nat 3" "\<forall>k < 0. failed (stalling_net (calls example_world + k) ?u)"
    "stalling_net (calls example_world + 0) ?u = Interrupted ''PN'' ''timed out''"
    "\<forall>k. 0 < k \<and> k < nat 3 \<longrightarrow> refused (stalling_net (calls example_world + k) ?u)"
    by (simp_all add: stalling_net_def refused_def example_world_def)
  have unknown: "\<exists>e. py_format example_formatter (tiles_url unknown_downloader)
      (tile_locals 2 3 1 ''out.png'' (tilesize unknown_downloader)
        (tiles_subdomains unknown_downloader
           ! nat ((3 + 1) mod int (length (tiles_subdomains unknown_downloader))))) = Inl e"
  proof
    show "py_format example_formatter (tiles_url unknown_downloader)
      (tile_locals 2 3 1 ''out.png'' (tilesize unknown_downloader)
        (tiles_subdomains unknown_downloader
           ! nat ((3 + 1) mod int (length (tiles_subdomains unknown_downloader)))))
      = Inl (KeyError ''foo'')"
      by code_simp
  qed
  have jpeg: "jpeg_server (calls example_world) wu = Response (Some ''image/jpeg'') (Some ''JPEG'')"
    "header_matches (Some ''image/jpeg'') (VStr ''image/jpeg'')"
    by (simp_all add: jpeg_server_def header_matches_def)
  have unreachable: "unreachable_server (calls example_world) wu = Unreachable"
    by (simp add: unreachable_server_def)
  have page: "error_server (calls example_world) wu
      = Response (Some ''text/xml'') (Some ''<ServiceException/>'')"
    "\<not> header_matches (Some ''text/xml'') (VStr ''image/jpeg'')"
    by (simp_all add: error_server_def header_matches_def)
  have broken: "broken_server (calls example_world) wu = Response (Some ''image/jpeg'') None"
    by (simp add: broken_server_def)
  have archive: "fst (MBTilesReader_tile example_reader example_archive 1 3 1 ''out.png''
      example_world) = Inl TypeError"
    by (simp add: MBTilesReader_tile_raises)
  note fetch = sink_after_fetch [where F = example_formatter and R = 3 and z = 2 and x = 3
      and y = 1 and out = "''out.png''" and w = example_world and P = example_projection
      and enc = example_urlencode and wrd = example_wms and wu = wu
      and fmt = "VStr ''image/jpeg''" and ard = example_reader and db = example_archive
      and zoom = 1]
  have one: "TileDownloader_tile example_formatter 3 (flaky_net 2) example_downloader 2 3 1
        ''out.png'' example_world
      = (Inr (), example_world\<lparr>fs := (fs example_world)(''out.png'' \<mapsto> ''PNG''),
                               calls := calls example_world + 2 + 1\<rparr>)
    \<and> WMSReader_tile example_projection example_urlencode jpeg_server example_wms 2 3 1
        ''out.png'' example_world
      = (Inr (), example_world\<lparr>calls := Suc (calls example_world),
                               fs := (fs example_world)(''out.png'' \<mapsto> ''JPEG'')\<rparr>)
    \<and> snd (MBTilesReader_tile example_reader example_archive 1 3 1 ''out.png'' example_world)
      = example_world"
    using fetch [where rd = example_downloader and u = ?u and net = "flaky_net 2"
        and wnet = jpeg_server]
      subdomains example_url budget flaky wu fmt jpeg archive
    by blast
  have two: "TileDownloader_tile example_formatter 3 refusing_net example_downloader 2 3 1
        ''out.png'' example_world
      = (Inl (DownloadError None), example_world\<lparr>calls := calls example_world + nat 3\<rparr>)
    \<and> WMSReader_tile example_projection example_urlencode unreachable_server example_wms 2 3 1
        ''out.png'' example_world
      = (Inl (ExtractionError None), example_world\<lparr>calls := Suc (calls example_world)\<rparr>)"
    using fetch [where rd = example_downloader and u = ?u and net = refusing_net
        and wnet = unreachable_server]
      subdomains example_url refusing wu fmt unreachable
    by blast
  have three: "TileDownloader_tile example_formatter 3 stalling_net example_downloader 2 3 1
        ''out.png'' example_world
      = (Inl (DownloadError None),
         example_world\<lparr>fs := (fs example_world)(''out.png'' \<mapsto> ''PN''),
                        calls := calls example_world + nat 3\<rparr>)
    \<and> WMSReader_tile example_projection example_urlencode error_server example_wms 2 3 1
        ''out.png'' example_world
      = (Inl (ExtractionError None), example_world\<lparr>calls := Suc (calls example_world)\<rparr>)"
    using fetch [where rd = example_downloader and u = ?u and net = stalling_net
        and wnet = error_server]
      subdomains example_url stalling wu fmt page
    by blast
  have four: "(\<exists>e'. TileDownloader_tile example_formatter 3 refusing_net unknown_downloader 2 3 1
          ''out.png'' example_world = (Inl e', example_world))
    \<and> WMSReader_tile example_projection example_urlencode broken_server example_wms 2 3 1
        ''out.png'' example_world
      = (Inl (ExtractionError None),
         example_world\<lparr>calls := Suc (calls example_world),
                        fs := (fs example_world)(''out.png'' \<mapsto> [])\<rparr>)"
    using fetch [where rd = unknown_downloader and u = ?u and net = refusing_net
        and wnet = broken_server]
      unknown wu fmt broken jpeg(2)
    by blast
  from one two three four show ?thesis
    by blast
qed

text \<open>
  The claim C8 as it is stated, that every fetch that fails leaves the sink untouched,
  does not hold. With a retry budget of 1 and a transfer that stops after two bytes, the
  downloader raises DownloadError and the output file, which did not exist, holds the
  two bytes. With a WMS response of the content type asked for whose body cannot be
  read, the requester raises ExtractionError and the output file, which held three
  bytes, is empty.
\<close>

theorem partial_write_on_failure:
  "fst (TileDownloader_tile example_formatter 1 (flaky_net 1) example_downloader 2 3 1
          ''out.png'' example_world) = Inl (DownloadError None)
   \<and> fs (snd (TileDownloader_tile example_formatter 1 (flaky_net 1) example_downloader 2 3 1
          ''out.png'' example_world)) ''out.png'' = Some ''PN''
   \<and> fs example_world ''out.png'' = None
   \<and> fst (WMSReader_tile example_projection example_urlencode broken_server example_wms 2 3 1
          ''out.jpg'' old_world) = Inl (ExtractionError None)
   \<and> fs (snd (WMSReader_tile example_projection example_urlencode broken_server example_wms
          2 3 1 ''out.jpg'' old_world)) ''out.jpg'' = Some []
   \<and> fs old_world ''out.jpg'' = Some ''OLD''"
  by code_simp


subsection \<open>Placeholders\<close>

lemma format_scan_append:
  "format_scan F kw mode pre = Inr p \<Longrightarrow>
     format_scan F kw mode (pre @ rest) =
       (case format_scan F kw Text rest of Inl e \<Rightarrow> Inl e | Inr r \<Rightarrow> Inr (p @ r))"
proof (induction F kw mode pre arbitrary: p rule: format_scan.induct)
  case (1 F kw)
  then show ?case by (simp split: sum.splits)
next
  case (2 F kw d acc)
  then show ?case by simp
next
  case (3 F kw c)
  then have c: "c \<noteq> CHR ''{''" "c \<noteq> CHR ''}''" and p: "p = [c]"
    by (auto split: if_splits)
  show ?case
    using c by (cases rest) (simp_all add: p split: sum.splits)
next
  case (4 F kw c c' cs)
  show ?case
    using "4.prems" "4.IH"
    by (auto split: if_splits sum.splits)
next
  case (5 F kw d acc c cs)
  show ?case
    using "5.prems" "5.IH"
    by (auto split: if_splits sum.splits nat.splits)
qed

lemma format_scan_nested:
  "nested d field \<Longrightarrow>
     format_scan F kw (InField d acc) (field @ CHR ''}'' # post) =
       (case render_field F kw (rev acc @ field) of
          Inl e \<Rightarrow> Inl e
        | Inr v \<Rightarrow> (case format_scan F kw Text post of Inl e \<Rightarrow> Inl e | Inr r \<Rightarrow> Inr (v @ r)))"
proof (induction field arbitrary: d acc)
  case Nil
  then show ?case by simp
next
  case (Cons c field)
  show ?case
  proof (cases "c = CHR ''{''")
    case True
    with Cons.prems have "nested (Suc d) field" by simp
    from Cons.IH [OF this, of "c # acc"] True show ?thesis by simp
  next
    case False
    show ?thesis
    proof (cases "c = CHR ''}''")
      case True
      with Cons.prems False obtain d' where d: "d = Suc d'" and "nested d' field"
        by (cases d) simp_all
      from Cons.IH [OF this(2), of "c # acc"] True d show ?thesis by simp
    next
      case no_close: False
      with Cons.prems False have "nested d field" by simp
      from Cons.IH [OF this, of "c # acc"] False no_close show ?thesis by simp
    qed
  qed
qed

lemma render_field_unknown:
  assumes "named_placeholder field"
    and "map_of kw (placeholder_name field) = None"
  shows "render_field F kw field = Inl (KeyError (placeholder_name field))"
  using assms
  unfolding render_field_def named_placeholder_def placeholder_name_def Let_def
  by simp

lemma py_format_unknown:
  assumes "py_format F pre kw = Inr p"
    and "named_placeholder field"
    and "map_of kw (placeholder_name field) = None"
  shows "py_format F (pre @ CHR ''{'' # field @ CHR ''}'' # post) kw
     = Inl (KeyError (placeholder_name field))"
proof -
  from assms(2) obtain c cs where field: "field = c # cs" and c: "c \<noteq> CHR ''{''"
    by (cases field) (auto simp: named_placeholder_def placeholder_name_def)
  from assms(2) have n: "nested 0 field"
    by (simp add: named_placeholder_def)
  have "format_scan F kw Text (CHR ''{'' # field @ CHR ''}'' # post)
      = format_scan F kw (InField 0 []) (field @ CHR ''}'' # post)"
    using c by (simp add: field)
  also have "\<dots> = Inl (KeyError (placeholder_name field))"
    using format_scan_nested [OF n, of F kw "[]" post] render_field_unknown [OF assms(2,3), of F]
    by simp
  finally show ?thesis
    using format_scan_append [of F kw Text pre p "CHR ''{'' # field @ CHR ''}'' # post"] assms(1)
    by (simp add: py_format_def)
qed

lemma map_of_tile_locals:
  "map_of (tile_locals z x y out sz s) n = None \<longleftrightarrow> n \<notin> set local_names"
  by (simp add: tile_locals_def local_names_def)

lemma TileDownloader_tile_KeyError:
  assumes "tiles_subdomains rd \<noteq> []"
    and "py_format F (tiles_url rd)
           (tile_locals z x y out (tilesize rd)
              (tiles_subdomains rd ! nat ((x + y) mod int (length (tiles_subdomains rd)))))
         = Inl (KeyError k)"
  shows "TileDownloader_tile F R net rd z x y out w
     = (Inl (DownloadError (Some (''Unknown keyword '' @ repr_str k @ '' in URL''))), w)"
  unfolding TileDownloader_tile_def Let_def
  using assms
  by (simp only: py_percent_download_tile py_percent_unknown sum.case error.case if_False)

lemma repr_str_single_quote:
  "repr_str (''fo'' @ [CHR 0x27] @ ''o'') = [CHR 0x22] @ ''fo'' @ [CHR 0x27] @ ''o'' @ [CHR 0x22]"
  by (simp add: repr_str_def repr_char_def Let_def)

text \<open>
  C9 (as amended). Unknown placeholder: when the URL template has, after a part that
  renders, a named placeholder whose name is not a local name of \<^verbatim>\<open>TileDownloader.tile\<close>
  (\<^verbatim>\<open>z\<close>, \<^verbatim>\<open>x\<close>, \<^verbatim>\<open>y\<close>, \<^verbatim>\<open>s\<close>, \<^verbatim>\<open>size\<close> and also \<^verbatim>\<open>self\<close>, \<^verbatim>\<open>output\<close>), the fetch
  raises DownloadError with the message that names the placeholder, and the world is as
  it was: no network call, no retry, nothing written.
\<close>

theorem unknown_placeholder:
  assumes "tiles_subdomains rd \<noteq> []"
    and "tiles_url rd = pre @ CHR ''{'' # field @ CHR ''}'' # post"
    and "py_format F pre
           (tile_locals z x y out (tilesize rd)
              (tiles_subdomains rd ! nat ((x + y) mod int (length (tiles_subdomains rd)))))
         = Inr rendered"
    and "named_placeholder field"
    and "placeholder_name field \<notin> set local_names"
  shows "TileDownloader_tile F R net rd z x y out w
     = (Inl (DownloadError
          (Some (''Unknown keyword '' @ repr_str (placeholder_name field) @ '' in URL''))), w)"
proof -
  let ?kw = "tile_locals z x y out (tilesize rd)
      (tiles_subdomains rd ! nat ((x + y) mod int (length (tiles_subdomains rd))))"
  from assms(5) have "map_of ?kw (placeholder_name field) = None"
    by (simp only: map_of_tile_locals not_False_eq_True)
  from py_format_unknown [OF assms(3,4) this, of post]
  have "py_format F (tiles_url rd) ?kw = Inl (KeyError (placeholder_name field))"
    by (simp only: assms(2))
  from TileDownloader_tile_KeyError [OF assms(1) this] show ?thesis .
qed

theorem unknown_placeholder_witness:
  "TileDownloader_tile example_formatter 3 (flaky_net 0) unknown_downloader 2 3 1 ''out.png''
     example_world
   = (Inl (DownloadError (Some (''Unknown keyword '' @ repr_str ''foo'' @ '' in URL''))),
      example_world)
   \<and> TileDownloader_tile example_formatter 3 (flaky_net 0) dotted_downloader 2 3 1 ''out.png''
     example_world
   = (Inl (DownloadError (Some (''Unknown keyword '' @ repr_str ''foo'' @ '' in URL''))),
      example_world)
   \<and> repr_str ''foo'' = [CHR 0x27] @ ''foo'' @ [CHR 0x27]"
proof -
  have s1: "tiles_subdomains unknown_downloader \<noteq> []"
    by (simp add: unknown_downloader_def example_downloader_def)
  have t1: "tiles_url unknown_downloader
      = ''http://{s}.tile.test/'' @ CHR ''{'' # ''foo'' @ CHR ''}'' # ''/{z}.png''"
    by (simp add: unknown_downloader_def)
  have p1: "py_format example_formatter ''http://{s}.tile.test/''
      (tile_locals 2 3 1 ''out.png'' (tilesize unknown_downloader)
        (tiles_subdomains unknown_downloader
           ! nat ((3 + 1) mod int (length (tiles_subdomains unknown_downloader)))))
      = Inr ''http://a.tile.test/''"
    by code_simp
  have f1: "named_placeholder ''foo''" "placeholder_name ''foo'' = ''foo''"
    by code_simp+
  have l1: "placeholder_name ''foo'' \<notin> set local_names"
    by (simp add: f1(2) local_names_def)
  have s2: "tiles_subdomains dotted_downloader \<noteq> []"
    by (simp add: dotted_downloader_def example_downloader_def)
  have t2: "tiles_url dotted_downloader
      = ''http://{s}.tile.test/{{x}}/'' @ CHR ''{'' # ''foo.bar'' @ CHR ''}'' # []"
    by (simp add: dotted_downloader_def)
  have p2: "py_format example_formatter ''http://{s}.tile.test/{{x}}/''
      (tile_locals 2 3 1 ''out.png'' (tilesize dotted_downloader)
        (tiles_subdomains dotted_downloader
           ! nat ((3 + 1) mod int (length (tiles_subdomains dotted_downloader)))))
      = Inr ''http://a.tile.test/{x}/''"
    by code_simp
  have f2: "named_placeholder ''foo.bar''" "placeholder_name ''foo.bar'' = ''foo''"
    by code_simp+
  have l2: "placeholder_name ''foo.bar'' \<notin> set local_names"
    by (simp add: f2(2) local_names_def)
  have r: "repr_str ''foo'' = [CHR 0x27] @ ''foo'' @ [CHR 0x27]"
    by code_simp
  show ?thesis
    using unknown_placeholder [OF s1 t1 p1 f1(1) l1, of 3 "flaky_net 0" example_world]
      unknown_placeholder [OF s2 t2 p2 f2(1) l2, of 3 "flaky_net 0" example_world]
    unfolding f1(2) f2(2) using r by simp
qed

text \<open>
  The claim C9 as it is stated, for every placeholder other than \<^verbatim>\<open>{z}\<close>, \<^verbatim>\<open>{x}\<close>,
  \<^verbatim>\<open>{y}\<close>, \<^verbatim>\<open>{s}\<close> and \<^verbatim>\<open>{size}\<close>, does not hold: a template with \<^verbatim>\<open>{output}\<close> is
  rendered, one network call is made and the fetch returns.
\<close>

theorem output_placeholder_accepted:
  "TileDownloader_tile example_formatter 3 (flaky_net 0) output_downloader 2 3 1 ''out.png''
     example_world
   = (Inr (), \<lparr>fs = [''out.png'' \<mapsto> ''PNG''], calls = 1\<rparr>)
   \<and> py_format example_formatter (tiles_url output_downloader)
        (tile_locals 2 3 1 ''out.png'' 256 ''a'') = Inr ''http://tile.test/2/3/1/out.png''"
proof -
  have u: "py_format example_formatter (tiles_url output_downloader)
        (tile_locals 2 3 1 ''out.png'' (tilesize output_downloader)
           (tiles_subdomains output_downloader
             ! nat ((3 + 1) mod int (length (tiles_subdomains output_downloader)))))
      = Inr ''http://tile.test/2/3/1/out.png''"
    by code_simp
  have s: "tiles_subdomains output_downloader \<noteq> []"
    by (simp add: output_downloader_def example_downloader_def)
  have "download_loop (flaky_net 0) ''http://tile.test/2/3/1/out.png'' ''out.png'' 3 example_world
      = (Inr (), \<lparr>fs = [''out.png'' \<mapsto> ''PNG''], calls = 1\<rparr>)"
    by (subst download_loop_step) (simp add: retrieve_def flaky_net_def example_world_def)
  moreover have "py_format example_formatter (tiles_url output_downloader)
        (tile_locals 2 3 1 ''out.png'' 256 ''a'') = Inr ''http://tile.test/2/3/1/out.png''"
    by code_simp
  ultimately show ?thesis
    using TileDownloader_tile_loop [OF s u, of 3 "flaky_net 0" example_world] by simp
qed


subsection \<open>WMS parameters\<close>

text \<open>
  C10. WMS spatial-reference parameter: whatever the overrides, when \<^verbatim>\<open>parse_version\<close>
  gives a value for the effective version (the override of \<^verbatim>\<open>version\<close>, or \<^verbatim>\<open>1.1.1\<close>)
  and for \<^verbatim>\<open>1.3\<close>, the constructor returns a requester whose parameters hold the
  effective version; when the value of the version is at least the value of \<^verbatim>\<open>1.3\<close>
  they hold the projection's name under \<^verbatim>\<open>crs\<close>, and under \<^verbatim>\<open>srs\<close> only what the
  overrides gave; otherwise they hold the projection's name under \<^verbatim>\<open>srs\<close>, and under
  \<^verbatim>\<open>crs\<close> only what the overrides gave. An override of the chosen key is replaced.
\<close>

theorem wms_projection_key:
  assumes "(case kwargs ''version'' of None \<Rightarrow> VStr ''1.1.1'' | Some v \<Rightarrow> v) = version"
    and "parse_version version = Inr ver"
    and "parse_version (VStr ''1.3'') = Inr limit"
  shows "\<exists>r. WMSReader_init parse_version P DEFAULT_TILE_SIZE endpoint layers size_arg kwargs = Inr r
     \<and> wmsParams r ''version'' = Some version
     \<and> (limit \<le> ver \<longrightarrow>
          wmsParams r ''crs'' = Some (VStr (NAME P)) \<and> wmsParams r ''srs'' = kwargs ''srs'')
     \<and> (\<not> limit \<le> ver \<longrightarrow>
          wmsParams r ''srs'' = Some (VStr (NAME P)) \<and> wmsParams r ''crs'' = kwargs ''crs'')"
proof (cases "kwargs ''version''")
  case None
  with assms show ?thesis
    by (auto simp: WMSReader_init_def Let_def map_add_def split: option.splits)
next
  case (Some v)
  with assms show ?thesis
    by (auto simp: WMSReader_init_def Let_def map_add_def split: option.splits)
qed

theorem wms_projection_key_witness:
  "(\<exists>r. WMSReader_init dotted_version example_projection 256 ''http://wms.test/'' [''roads'']
          None [''version'' \<mapsto> VStr ''1.3.0'', ''crs'' \<mapsto> VStr ''EPSG:4326''] = Inr r
      \<and> wmsParams r ''version'' = Some (VStr ''1.3.0'')
      \<and> wmsParams r ''crs'' = Some (VStr ''EPSG:3857'')
      \<and> wmsParams r ''srs'' = None)
   \<and> (\<exists>r. WMSReader_init dotted_version example_projection 256 ''http://wms.test/'' [''roads'']
          None [''srs'' \<mapsto> VStr ''EPSG:4326''] = Inr r
      \<and> wmsParams r ''version'' = Some (VStr ''1.1.1'')
      \<and> wmsParams r ''srs'' = Some (VStr ''EPSG:3857'')
      \<and> wmsParams r ''crs'' = None)"
proof -
  have name: "NAME example_projection = ''EPSG:3857''"
    by (simp add: example_projection_def)
  have v13: "(case [''version'' \<mapsto> VStr ''1.3.0'', ''crs'' \<mapsto> VStr ''EPSG:4326''] ''version'' of
      None \<Rightarrow> VStr ''1.1.1'' | Some v \<Rightarrow> v) = VStr ''1.3.0''"
    by simp
  have v11: "(case [''srs'' \<mapsto> VStr ''EPSG:4326''] ''version'' of
      None \<Rightarrow> VStr ''1.1.1'' | Some v \<Rightarrow> v) = VStr ''1.1.1''"
    by simp
  have p130: "dotted_version (VStr ''1.3.0'') = Inr [1, 3]"
    and p13: "dotted_version (VStr ''1.3'') = Inr [1, 3]"
    and p111: "dotted_version (VStr ''1.1.1'') = Inr [1, 1, 1]"
    by code_simp+
  have newer: "[1, 3] \<le> [1, 3 :: nat]"
    by simp
  have older: "\<not> [1, 3] \<le> [1, 1, 1 :: nat]"
    by simp
  have other13: "[''version'' \<mapsto> VStr ''1.3.0'', ''crs'' \<mapsto> VStr ''EPSG:4326''] ''srs'' = None"
    by simp
  have other11: "[''srs'' \<mapsto> VStr ''EPSG:4326''] ''crs'' = None"
    by simp
  show ?thesis
    using wms_projection_key [where kwargs = "[''version'' \<mapsto> VStr ''1.3.0'', ''crs'' \<mapsto> VStr ''EPSG:4326'']"
        and version = "VStr ''1.3.0''" and parse_version = dotted_version
        and ver = "[1, 3]" and limit = "[1, 3]"
        and P = example_projection and DEFAULT_TILE_SIZE = 256
        and endpoint = "''http://wms.test/''" and layers = "[''roads'']" and size_arg = None,
        OF v13 p130 p13]
      wms_projection_key [where kwargs = "[''srs'' \<mapsto> VStr ''EPSG:4326'']"
        and version = "VStr ''1.1.1''" and parse_version = dotted_version
        and ver = "[1, 1, 1]" and limit = "[1, 3]"
        and P = example_projection and DEFAULT_TILE_SIZE = 256
        and endpoint = "''http://wms.test/''" and layers = "[''roads'']" and size_arg = None,
        OF v11 p111 p13]
      newer older
    unfolding name other13 other11 by blast
qed


end
